theory Spec2Isabelle
  imports Complex_Main "HOL-Library.AList"
begin

section \<open>Python values the metrics work on\<close>

text \<open>
  The module \<^verbatim>\<open>avalanche/evaluation/metrics/forgetting.py\<close> keeps its state in Python
  dictionaries. A dictionary is modelled as an association list in insertion order:
  \<^verbatim>\<open>d[k] = v\<close> replaces the value of an existing key in place and appends a new key,
  \<^verbatim>\<open>k in d\<close> is a lookup, and \<^verbatim>\<open>d[k]\<close> raises \<^verbatim>\<open>KeyError\<close> on a missing key.
  Python floats are modelled as real numbers: rounding is not part of the model.
\<close>

datatype error = KeyError | TypeError

type_synonym ('k, 'v) dict = "('k \<times> 'v) list"

definition dict_contains :: "('k, 'v) dict \<Rightarrow> 'k \<Rightarrow> bool" where
  "dict_contains d k = (map_of d k \<noteq> None)"

definition dict_getitem :: "('k, 'v) dict \<Rightarrow> 'k \<Rightarrow> error + 'v" where
  "dict_getitem d k = (case map_of d k of None \<Rightarrow> Inl KeyError | Some v \<Rightarrow> Inr v)"

definition dict_setitem :: "'k \<Rightarrow> 'v \<Rightarrow> ('k, 'v) dict \<Rightarrow> ('k, 'v) dict" where
  "dict_setitem k v d = AList.update k v d"

definition dict_keys :: "('k, 'v) dict \<Rightarrow> 'k list" where
  "dict_keys d = map fst d"


section \<open>The standalone Forgetting metric\<close>

text \<open>
  Class \<^verbatim>\<open>Forgetting\<close>. A key is any Python value, and \<^verbatim>\<open>None\<close> is one of them
  (\<^verbatim>\<open>update(None, v)\<close> stores under the key \<^verbatim>\<open>None\<close>), so the dictionaries are keyed by
  \<open>'k option\<close>, where \<open>None\<close> is Python's \<^verbatim>\<open>None\<close> and \<open>Some k\<close> a proper key.
  The field \<^verbatim>\<open>last\<close> is called \<open>last_d\<close> here.
\<close>

record 'k Forgetting =
  initial :: "('k option, real) dict"
  last_d :: "('k option, real) dict"

text \<open>What \<^verbatim>\<open>result\<close> returns: \<^verbatim>\<open>None\<close>, a float, or a dictionary.\<close>

datatype 'k forgetting_result =
  RNone | RFloat real | RDict "('k option, real) dict"

definition Forgetting_init :: "'k Forgetting" where
  "Forgetting_init = \<lparr>initial = [], last_d = []\<rparr>"

definition Forgetting_update_initial ::
  "'k option \<Rightarrow> real \<Rightarrow> 'k Forgetting \<Rightarrow> 'k Forgetting" where
  "Forgetting_update_initial k v s = s\<lparr>initial := dict_setitem k v (initial s)\<rparr>"

definition Forgetting_update_last ::
  "'k option \<Rightarrow> real \<Rightarrow> 'k Forgetting \<Rightarrow> 'k Forgetting" where
  "Forgetting_update_last k v s = s\<lparr>last_d := dict_setitem k v (last_d s)\<rparr>"

definition Forgetting_update ::
  "'k option \<Rightarrow> real \<Rightarrow> bool \<Rightarrow> 'k Forgetting \<Rightarrow> 'k Forgetting" where
  "Forgetting_update k v init s =
     (if init then Forgetting_update_initial k v s else Forgetting_update_last k v s)"

text \<open>
  \<^verbatim>\<open>both_keys = list(ik.intersection(set(self.last.keys())))\<close>: the keys of
  \<^verbatim>\<open>initial\<close>, without repetition, that are keys of \<^verbatim>\<open>last\<close>. Python leaves the
  iteration order of a set open; the model lists them in the order of \<^verbatim>\<open>initial\<close>.
\<close>

definition both_keys :: "'k Forgetting \<Rightarrow> 'k option list" where
  "both_keys s =
     filter (\<lambda>j. j \<in> set (dict_keys (last_d s))) (remdups (dict_keys (initial s)))"

text \<open>The loop \<^verbatim>\<open>for k in both_keys: forgetting[k] = self.initial[k] - self.last[k]\<close>.\<close>

fun forgetting_loop ::
  "'k Forgetting \<Rightarrow> 'k option list \<Rightarrow> ('k option, real) dict \<Rightarrow> error + ('k option, real) dict"
where
  "forgetting_loop s [] forgetting = Inr forgetting"
| "forgetting_loop s (k # ks) forgetting =
     (case dict_getitem (initial s) k of
        Inl e \<Rightarrow> Inl e
      | Inr a \<Rightarrow>
          (case dict_getitem (last_d s) k of
             Inl e \<Rightarrow> Inl e
           | Inr b \<Rightarrow> forgetting_loop s ks (dict_setitem k (a - b) forgetting)))"

definition Forgetting_result ::
  "'k option \<Rightarrow> 'k Forgetting \<Rightarrow> error + 'k forgetting_result" where
  "Forgetting_result k s =
     (if k \<noteq> None then
        (if dict_contains (initial s) k \<and> dict_contains (last_d s) k then
           (case dict_getitem (initial s) k of
              Inl e \<Rightarrow> Inl e
            | Inr a \<Rightarrow>
                (case dict_getitem (last_d s) k of
                   Inl e \<Rightarrow> Inl e
                 | Inr b \<Rightarrow> Inr (RFloat (a - b))))
         else Inr RNone)
      else
        (case forgetting_loop s (both_keys s) [] of
           Inl e \<Rightarrow> Inl e
         | Inr forgetting \<Rightarrow> Inr (RDict forgetting)))"

definition Forgetting_reset_last :: "'k Forgetting \<Rightarrow> 'k Forgetting" where
  "Forgetting_reset_last s = s\<lparr>last_d := []\<rparr>"

definition Forgetting_reset :: "'k Forgetting \<Rightarrow> 'k Forgetting" where
  "Forgetting_reset s = s\<lparr>initial := [], last_d := []\<rparr>"

text \<open>
  A client of the tracker calls its methods one after the other. A call returns what
  the method returns (\<open>RNone\<close> for the methods without a return value).
\<close>

datatype 'k tracker_call =
    UpdateInitial "'k option" real
  | UpdateLast "'k option" real
  | Update "'k option" real bool
  | Result "'k option"
  | ResetLast
  | Reset

fun Forgetting_call ::
  "'k tracker_call \<Rightarrow> 'k Forgetting \<Rightarrow> error + ('k Forgetting \<times> 'k forgetting_result)"
where
  "Forgetting_call (UpdateInitial k v) s = Inr (Forgetting_update_initial k v s, RNone)"
| "Forgetting_call (UpdateLast k v) s = Inr (Forgetting_update_last k v s, RNone)"
| "Forgetting_call (Update k v init) s = Inr (Forgetting_update k v init s, RNone)"
| "Forgetting_call (Result k) s =
     (case Forgetting_result k s of Inl e \<Rightarrow> Inl e | Inr r \<Rightarrow> Inr (s, r))"
| "Forgetting_call ResetLast s = Inr (Forgetting_reset_last s, RNone)"
| "Forgetting_call Reset s = Inr (Forgetting_reset s, RNone)"

fun Forgetting_calls ::
  "'k tracker_call list \<Rightarrow> 'k Forgetting \<Rightarrow>
   error + ('k Forgetting \<times> 'k forgetting_result list)"
where
  "Forgetting_calls [] s = Inr (s, [])"
| "Forgetting_calls (c # cs) s =
     (case Forgetting_call c s of
        Inl e \<Rightarrow> Inl e
      | Inr (s', r) \<Rightarrow>
          (case Forgetting_calls cs s' of
             Inl e \<Rightarrow> Inl e
           | Inr (s'', rs) \<Rightarrow> Inr (s'', r # rs)))"

text \<open>The keys a sequence of calls writes into each dictionary when run on a fresh
  tracker without resets: they depend on the set of calls only.\<close>

fun writes_initial :: "'k tracker_call \<Rightarrow> 'k option set" where
  "writes_initial (UpdateInitial k v) = {k}"
| "writes_initial (Update k v init) = (if init then {k} else {})"
| "writes_initial c = {}"

fun writes_last :: "'k tracker_call \<Rightarrow> 'k option set" where
  "writes_last (UpdateLast k v) = {k}"
| "writes_last (Update k v init) = (if init then {} else {k})"
| "writes_last c = {}"

fun is_reset :: "'k tracker_call \<Rightarrow> bool" where
  "is_reset ResetLast = True"
| "is_reset Reset = True"
| "is_reset c = False"


section \<open>The collaborators of the plugin metrics\<close>

text \<open>
  Modelled from the spec: the running mean accumulator (class \<^verbatim>\<open>Mean\<close> of
  \<^verbatim>\<open>avalanche.evaluation.metrics\<close>, imported by the module and not part of it). It
  ``accumulates weighted scalar samples; \<^verbatim>\<open>reset()\<close> clears; \<^verbatim>\<open>result()\<close> returns their
  weighted mean, or an undefined value if no samples were added''. The state is the list
  of the samples \<open>(value, weight)\<close> since the last reset. A sample that is not a scalar
  is outside its domain: the model answers \<open>TypeError\<close> there.
\<close>

type_synonym Mean = "(real \<times> real) list"

definition Mean_init :: Mean where
  "Mean_init = []"

definition Mean_reset :: "Mean \<Rightarrow> Mean" where
  "Mean_reset m = []"

definition Mean_update :: "'k forgetting_result \<Rightarrow> real \<Rightarrow> Mean \<Rightarrow> error + Mean" where
  "Mean_update x weight m =
     (case x of RFloat v \<Rightarrow> Inr (m @ [(v, weight)]) | _ \<Rightarrow> Inl TypeError)"

definition Mean_result :: "Mean \<Rightarrow> real option" where
  "Mean_result m =
     (if m = [] then None
      else Some (sum_list (map (\<lambda>(v, w). v * w) m) / sum_list (map snd m)))"

text \<open>
  The running accuracy accumulator (class \<^verbatim>\<open>Accuracy\<close>, imported as well) is a
  parameter of the model: its state is the list of the minibatches \<open>(mb_y, logits)\<close> fed
  since the last reset, and its \<^verbatim>\<open>result()\<close> is a function \<open>acc\<close> of that list, which
  every hook that reads the accuracy takes as an argument.

  The hooks receive the strategy object. The record holds what the module reads from
  it, and what the imported helpers return for it: the first component of
  \<^verbatim>\<open>phase_and_task(strategy)\<close>, \<^verbatim>\<open>stream_type(strategy.experience)\<close>,
  \<^verbatim>\<open>get_metric_name(self, strategy, add_experience=True)\<close> and
  \<^verbatim>\<open>self.get_global_counter()\<close>.
\<close>

record ('y, 'l) strategy =
  current_experience :: int
  mb_y :: 'y
  logits :: 'l
  phase_name :: string
  stream_type :: string
  exp_metric_name :: string
  global_counter :: nat

text \<open>\<^verbatim>\<open>MetricValue(origin, name, value, x_plot)\<close>; the origin is given by its \<^verbatim>\<open>__str__\<close>.\<close>

record 'v MetricValue =
  mv_origin :: string
  mv_name :: string
  mv_value :: 'v
  mv_x_plot :: nat

text \<open>The lifecycle events of the training loop that the two plugin metrics override.\<close>

datatype ('y, 'l) event =
    BeforeTrainingExp "('y, 'l) strategy"
  | BeforeEval "('y, 'l) strategy"
  | BeforeEvalExp "('y, 'l) strategy"
  | AfterEvalIteration "('y, 'l) strategy"
  | AfterEvalExp "('y, 'l) strategy"
  | AfterEval "('y, 'l) strategy"


section \<open>The ExperienceForgetting plugin metric\<close>

record ('y, 'l) ExperienceForgetting =
  forgetting :: "int Forgetting"
  current_accuracy :: "('y \<times> 'l) list"
  eval_exp_id :: "int option"
  train_exp_id :: "int option"

definition ExperienceForgetting_init :: "('y, 'l) ExperienceForgetting" where
  "ExperienceForgetting_init =
     \<lparr>forgetting = Forgetting_init, current_accuracy = [],
      eval_exp_id = None, train_exp_id = None\<rparr>"

definition ExperienceForgetting_reset ::
  "('y, 'l) ExperienceForgetting \<Rightarrow> ('y, 'l) ExperienceForgetting" where
  "ExperienceForgetting_reset s = s\<lparr>forgetting := Forgetting_reset (forgetting s)\<rparr>"

definition ExperienceForgetting_reset_last_accuracy ::
  "('y, 'l) ExperienceForgetting \<Rightarrow> ('y, 'l) ExperienceForgetting" where
  "ExperienceForgetting_reset_last_accuracy s =
     s\<lparr>forgetting := Forgetting_reset_last (forgetting s)\<rparr>"

definition ExperienceForgetting_update ::
  "int option \<Rightarrow> real \<Rightarrow> bool \<Rightarrow> ('y, 'l) ExperienceForgetting \<Rightarrow>
   ('y, 'l) ExperienceForgetting" where
  "ExperienceForgetting_update k v init s =
     s\<lparr>forgetting := Forgetting_update k v init (forgetting s)\<rparr>"

definition ExperienceForgetting_result ::
  "int option \<Rightarrow> ('y, 'l) ExperienceForgetting \<Rightarrow> error + int forgetting_result" where
  "ExperienceForgetting_result k s = Forgetting_result k (forgetting s)"

definition ExperienceForgetting_before_training_exp ::
  "('y, 'l) strategy \<Rightarrow> ('y, 'l) ExperienceForgetting \<Rightarrow> ('y, 'l) ExperienceForgetting" where
  "ExperienceForgetting_before_training_exp strategy s =
     s\<lparr>train_exp_id := Some (current_experience strategy)\<rparr>"

definition ExperienceForgetting_before_eval ::
  "('y, 'l) strategy \<Rightarrow> ('y, 'l) ExperienceForgetting \<Rightarrow> ('y, 'l) ExperienceForgetting" where
  "ExperienceForgetting_before_eval strategy s = ExperienceForgetting_reset_last_accuracy s"

definition ExperienceForgetting_before_eval_exp ::
  "('y, 'l) strategy \<Rightarrow> ('y, 'l) ExperienceForgetting \<Rightarrow> ('y, 'l) ExperienceForgetting" where
  "ExperienceForgetting_before_eval_exp strategy s = s\<lparr>current_accuracy := []\<rparr>"

definition ExperienceForgetting_after_eval_iteration ::
  "('y, 'l) strategy \<Rightarrow> ('y, 'l) ExperienceForgetting \<Rightarrow> ('y, 'l) ExperienceForgetting" where
  "ExperienceForgetting_after_eval_iteration strategy s =
     s\<lparr>eval_exp_id := Some (current_experience strategy),
       current_accuracy := current_accuracy s @ [(mb_y strategy, logits strategy)]\<rparr>"

definition ExperienceForgetting_package_result ::
  "('y, 'l) strategy \<Rightarrow> ('y, 'l) ExperienceForgetting \<Rightarrow>
   error + int forgetting_result MetricValue list" where
  "ExperienceForgetting_package_result strategy s =
     (case ExperienceForgetting_result (eval_exp_id s) s of
        Inl e \<Rightarrow> Inl e
      | Inr f \<Rightarrow>
          Inr [\<lparr>mv_origin = ''ExperienceForgetting'', mv_name = exp_metric_name strategy,
                mv_value = f, mv_x_plot = global_counter strategy\<rparr>])"

text \<open>\<^verbatim>\<open>after_eval_exp\<close> returns the new state and what the hook returns: \<open>None\<close> when
  the Python falls off the end of the function.\<close>

definition ExperienceForgetting_after_eval_exp ::
  "(('y \<times> 'l) list \<Rightarrow> real) \<Rightarrow> ('y, 'l) strategy \<Rightarrow> ('y, 'l) ExperienceForgetting \<Rightarrow>
   error + (('y, 'l) ExperienceForgetting \<times> int forgetting_result MetricValue list option)"
where
  "ExperienceForgetting_after_eval_exp acc strategy s =
     (let s1 =
        (if train_exp_id s = eval_exp_id s then
           ExperienceForgetting_update (eval_exp_id s) (acc (current_accuracy s)) True s
         else
           ExperienceForgetting_update (eval_exp_id s) (acc (current_accuracy s)) False s)
      in
        (case ExperienceForgetting_result (eval_exp_id s1) s1 of
           Inl e \<Rightarrow> Inl e
         | Inr r \<Rightarrow>
             (if r \<noteq> RNone then
                (case ExperienceForgetting_package_result strategy s1 of
                   Inl e \<Rightarrow> Inl e
                 | Inr mvs \<Rightarrow> Inr (s1, Some mvs))
              else Inr (s1, None))))"

text \<open>One event. \<^verbatim>\<open>after_eval\<close> is not overridden by this class: the inherited hook
  does nothing and returns nothing.\<close>

fun ExperienceForgetting_hook ::
  "(('y \<times> 'l) list \<Rightarrow> real) \<Rightarrow> ('y, 'l) event \<Rightarrow> ('y, 'l) ExperienceForgetting \<Rightarrow>
   error + (('y, 'l) ExperienceForgetting \<times> int forgetting_result MetricValue list option)"
where
  "ExperienceForgetting_hook acc (BeforeTrainingExp st) s =
     Inr (ExperienceForgetting_before_training_exp st s, None)"
| "ExperienceForgetting_hook acc (BeforeEval st) s =
     Inr (ExperienceForgetting_before_eval st s, None)"
| "ExperienceForgetting_hook acc (BeforeEvalExp st) s =
     Inr (ExperienceForgetting_before_eval_exp st s, None)"
| "ExperienceForgetting_hook acc (AfterEvalIteration st) s =
     Inr (ExperienceForgetting_after_eval_iteration st s, None)"
| "ExperienceForgetting_hook acc (AfterEvalExp st) s =
     ExperienceForgetting_after_eval_exp acc st s"
| "ExperienceForgetting_hook acc (AfterEval st) s = Inr (s, None)"

text \<open>A sequence of events: the final state and the result records emitted, in order.\<close>

fun ExperienceForgetting_run ::
  "(('y \<times> 'l) list \<Rightarrow> real) \<Rightarrow> ('y, 'l) event list \<Rightarrow> ('y, 'l) ExperienceForgetting \<Rightarrow>
   error + (('y, 'l) ExperienceForgetting \<times> int forgetting_result MetricValue list)"
where
  "ExperienceForgetting_run acc [] s = Inr (s, [])"
| "ExperienceForgetting_run acc (e # es) s =
     (case ExperienceForgetting_hook acc e s of
        Inl err \<Rightarrow> Inl err
      | Inr (s', out) \<Rightarrow>
          (case ExperienceForgetting_run acc es s' of
             Inl err \<Rightarrow> Inl err
           | Inr (s'', outs) \<Rightarrow>
               Inr (s'', (case out of None \<Rightarrow> [] | Some mvs \<Rightarrow> mvs) @ outs)))"


section \<open>The StreamForgetting plugin metric\<close>

text \<open>The class has the fields of \<^verbatim>\<open>ExperienceForgetting\<close> and the running mean
  \<^verbatim>\<open>stream_forgetting\<close>; the shared field names carry the prefix \<open>s_\<close> here.\<close>

record ('y, 'l) StreamForgetting =
  stream_forgetting :: Mean
  s_forgetting :: "int Forgetting"
  s_current_accuracy :: "('y \<times> 'l) list"
  s_eval_exp_id :: "int option"
  s_train_exp_id :: "int option"

definition StreamForgetting_init :: "('y, 'l) StreamForgetting" where
  "StreamForgetting_init =
     \<lparr>stream_forgetting = Mean_init, s_forgetting = Forgetting_init,
      s_current_accuracy = [], s_eval_exp_id = None, s_train_exp_id = None\<rparr>"

definition StreamForgetting_reset ::
  "('y, 'l) StreamForgetting \<Rightarrow> ('y, 'l) StreamForgetting" where
  "StreamForgetting_reset s =
     s\<lparr>s_forgetting := Forgetting_reset (s_forgetting s),
       stream_forgetting := Mean_reset (stream_forgetting s)\<rparr>"

definition StreamForgetting_reset_last_accuracy ::
  "('y, 'l) StreamForgetting \<Rightarrow> ('y, 'l) StreamForgetting" where
  "StreamForgetting_reset_last_accuracy s =
     s\<lparr>s_forgetting := Forgetting_reset_last (s_forgetting s)\<rparr>"

definition StreamForgetting_exp_update ::
  "int option \<Rightarrow> real \<Rightarrow> bool \<Rightarrow> ('y, 'l) StreamForgetting \<Rightarrow> ('y, 'l) StreamForgetting"
where
  "StreamForgetting_exp_update k v init s =
     s\<lparr>s_forgetting := Forgetting_update k v init (s_forgetting s)\<rparr>"

definition StreamForgetting_exp_result ::
  "int option \<Rightarrow> ('y, 'l) StreamForgetting \<Rightarrow> error + int forgetting_result" where
  "StreamForgetting_exp_result k s = Forgetting_result k (s_forgetting s)"

definition StreamForgetting_result ::
  "int option \<Rightarrow> ('y, 'l) StreamForgetting \<Rightarrow> real option" where
  "StreamForgetting_result k s = Mean_result (stream_forgetting s)"

definition StreamForgetting_before_training_exp ::
  "('y, 'l) strategy \<Rightarrow> ('y, 'l) StreamForgetting \<Rightarrow> ('y, 'l) StreamForgetting" where
  "StreamForgetting_before_training_exp strategy s =
     s\<lparr>s_train_exp_id := Some (current_experience strategy)\<rparr>"

definition StreamForgetting_before_eval ::
  "('y, 'l) strategy \<Rightarrow> ('y, 'l) StreamForgetting \<Rightarrow> ('y, 'l) StreamForgetting" where
  "StreamForgetting_before_eval strategy s =
     (let s1 = StreamForgetting_reset_last_accuracy s
      in s1\<lparr>stream_forgetting := Mean_reset (stream_forgetting s1)\<rparr>)"

definition StreamForgetting_before_eval_exp ::
  "('y, 'l) strategy \<Rightarrow> ('y, 'l) StreamForgetting \<Rightarrow> ('y, 'l) StreamForgetting" where
  "StreamForgetting_before_eval_exp strategy s = s\<lparr>s_current_accuracy := []\<rparr>"

definition StreamForgetting_after_eval_iteration ::
  "('y, 'l) strategy \<Rightarrow> ('y, 'l) StreamForgetting \<Rightarrow> ('y, 'l) StreamForgetting" where
  "StreamForgetting_after_eval_iteration strategy s =
     s\<lparr>s_eval_exp_id := Some (current_experience strategy),
       s_current_accuracy := s_current_accuracy s @ [(mb_y strategy, logits strategy)]\<rparr>"

definition StreamForgetting_after_eval_exp ::
  "(('y \<times> 'l) list \<Rightarrow> real) \<Rightarrow> ('y, 'l) strategy \<Rightarrow> ('y, 'l) StreamForgetting \<Rightarrow>
   error + ('y, 'l) StreamForgetting"
where
  "StreamForgetting_after_eval_exp acc strategy s =
     (let s1 =
        (if s_train_exp_id s = s_eval_exp_id s then
           StreamForgetting_exp_update (s_eval_exp_id s) (acc (s_current_accuracy s)) True s
         else
           StreamForgetting_exp_update (s_eval_exp_id s) (acc (s_current_accuracy s)) False s)
      in
        (case StreamForgetting_exp_result (s_eval_exp_id s1) s1 of
           Inl e \<Rightarrow> Inl e
         | Inr r \<Rightarrow>
             (if r \<noteq> RNone then
                (case StreamForgetting_exp_result (s_eval_exp_id s1) s1 of
                   Inl e \<Rightarrow> Inl e
                 | Inr exp_forgetting \<Rightarrow>
                     (case Mean_update exp_forgetting 1 (stream_forgetting s1) of
                        Inl e \<Rightarrow> Inl e
                      | Inr m \<Rightarrow> Inr (s1\<lparr>stream_forgetting := m\<rparr>)))
              else Inr s1)))"

definition StreamForgetting_package_result ::
  "('y, 'l) strategy \<Rightarrow> ('y, 'l) StreamForgetting \<Rightarrow> real option MetricValue list" where
  "StreamForgetting_package_result strategy s =
     (let metric_value = StreamForgetting_result None s;
          metric_name = ''StreamForgetting'' @ ''/'' @ phase_name strategy @ ''_phase/''
                          @ stream_type strategy @ ''_stream''
      in [\<lparr>mv_origin = ''StreamForgetting'', mv_name = metric_name,
            mv_value = metric_value, mv_x_plot = global_counter strategy\<rparr>])"

definition StreamForgetting_after_eval ::
  "('y, 'l) strategy \<Rightarrow> ('y, 'l) StreamForgetting \<Rightarrow> real option MetricValue list" where
  "StreamForgetting_after_eval strategy s = StreamForgetting_package_result strategy s"

fun StreamForgetting_hook ::
  "(('y \<times> 'l) list \<Rightarrow> real) \<Rightarrow> ('y, 'l) event \<Rightarrow> ('y, 'l) StreamForgetting \<Rightarrow>
   error + (('y, 'l) StreamForgetting \<times> real option MetricValue list option)"
where
  "StreamForgetting_hook acc (BeforeTrainingExp st) s =
     Inr (StreamForgetting_before_training_exp st s, None)"
| "StreamForgetting_hook acc (BeforeEval st) s =
     Inr (StreamForgetting_before_eval st s, None)"
| "StreamForgetting_hook acc (BeforeEvalExp st) s =
     Inr (StreamForgetting_before_eval_exp st s, None)"
| "StreamForgetting_hook acc (AfterEvalIteration st) s =
     Inr (StreamForgetting_after_eval_iteration st s, None)"
| "StreamForgetting_hook acc (AfterEvalExp st) s =
     (case StreamForgetting_after_eval_exp acc st s of
        Inl e \<Rightarrow> Inl e
      | Inr s' \<Rightarrow> Inr (s', None))"
| "StreamForgetting_hook acc (AfterEval st) s =
     Inr (s, Some (StreamForgetting_after_eval st s))"

fun StreamForgetting_run ::
  "(('y \<times> 'l) list \<Rightarrow> real) \<Rightarrow> ('y, 'l) event list \<Rightarrow> ('y, 'l) StreamForgetting \<Rightarrow>
   error + (('y, 'l) StreamForgetting \<times> real option MetricValue list)"
where
  "StreamForgetting_run acc [] s = Inr (s, [])"
| "StreamForgetting_run acc (e # es) s =
     (case StreamForgetting_hook acc e s of
        Inl err \<Rightarrow> Inl err
      | Inr (s', out) \<Rightarrow>
          (case StreamForgetting_run acc es s' of
             Inl err \<Rightarrow> Inl err
           | Inr (s'', outs) \<Rightarrow>
               Inr (s'', (case out of None \<Rightarrow> [] | Some mvs \<Rightarrow> mvs) @ outs)))"



section \<open>Notions the properties are stated with\<close>

text \<open>The forgetting of a key, where it is defined: the key has an initial and a last
  value, and the forgetting is their difference.\<close>

definition key_forgetting :: "'k Forgetting \<Rightarrow> 'k option \<Rightarrow> real option" where
  "key_forgetting s j =
     (case map_of (initial s) j of
        None \<Rightarrow> None
      | Some a \<Rightarrow> (case map_of (last_d s) j of None \<Rightarrow> None | Some b \<Rightarrow> Some (a - b)))"

fun is_BeforeTrainingExp :: "('y, 'l) event \<Rightarrow> bool" where
  "is_BeforeTrainingExp (BeforeTrainingExp st) = True"
| "is_BeforeTrainingExp e = False"

fun is_AfterEval :: "('y, 'l) event \<Rightarrow> bool" where
  "is_AfterEval (AfterEval st) = True"
| "is_AfterEval e = False"

text \<open>
  A key is recorded as trained by a sequence of events when it is passed to
  \<^verbatim>\<open>before_training_exp\<close> and then evaluated while it is still the last training key:
  some \<^verbatim>\<open>after_eval_exp\<close> happens when both the last training key \<open>t\<close> and the last
  evaluated key \<open>e\<close> are this key.
\<close>

fun recorded_as_trained ::
  "int \<Rightarrow> int option \<Rightarrow> int option \<Rightarrow> ('y, 'l) event list \<Rightarrow> bool" where
  "recorded_as_trained k t e [] = False"
| "recorded_as_trained k t e (BeforeTrainingExp st # evs) =
     recorded_as_trained k (Some (current_experience st)) e evs"
| "recorded_as_trained k t e (AfterEvalIteration st # evs) =
     recorded_as_trained k t (Some (current_experience st)) evs"
| "recorded_as_trained k t e (AfterEvalExp st # evs) =
     ((t = Some k \<and> e = Some k) \<or> recorded_as_trained k t e evs)"
| "recorded_as_trained k t e (BeforeEval st # evs) = recorded_as_trained k t e evs"
| "recorded_as_trained k t e (BeforeEvalExp st # evs) = recorded_as_trained k t e evs"
| "recorded_as_trained k t e (AfterEval st # evs) = recorded_as_trained k t e evs"

text \<open>
  One evaluation stream as the training loop runs it: \<^verbatim>\<open>before_eval\<close>, then for each
  evaluated experience \<^verbatim>\<open>before_eval_exp\<close>, its iterations and \<^verbatim>\<open>after_eval_exp\<close>, then
  \<^verbatim>\<open>after_eval\<close>. An evaluated experience is given by the strategy objects its hooks
  receive; its key is the one of its last iteration and its accuracy the one of its
  minibatches.
\<close>

type_synonym ('y, 'l) evaluated_exp =
  "('y, 'l) strategy \<times> ('y, 'l) strategy list \<times> ('y, 'l) strategy"

fun exp_events :: "('y, 'l) evaluated_exp \<Rightarrow> ('y, 'l) event list" where
  "exp_events (sb, its, sa) = BeforeEvalExp sb # map AfterEvalIteration its @ [AfterEvalExp sa]"

definition stream_events ::
  "('y, 'l) strategy \<Rightarrow> ('y, 'l) evaluated_exp list \<Rightarrow> ('y, 'l) strategy \<Rightarrow>
   ('y, 'l) event list" where
  "stream_events st0 exps stN = BeforeEval st0 # concat (map exp_events exps) @ [AfterEval stN]"

fun exp_iterations :: "('y, 'l) evaluated_exp \<Rightarrow> ('y, 'l) strategy list" where
  "exp_iterations (sb, its, sa) = its"

definition exp_key :: "('y, 'l) evaluated_exp \<Rightarrow> int option" where
  "exp_key x = Some (current_experience (last (exp_iterations x)))"

definition exp_accuracy :: "(('y \<times> 'l) list \<Rightarrow> real) \<Rightarrow> ('y, 'l) evaluated_exp \<Rightarrow> real" where
  "exp_accuracy acc x = acc (map (\<lambda>st. (mb_y st, logits st)) (exp_iterations x))"

text \<open>
  The forgetting values that are defined during a stream, in the words of the spec:
  an evaluated experience has one when its key is not the key trained last (that
  evaluation sets the initial value) and an initial value \<open>i\<close> was recorded for it before;
  the value is \<open>i\<close> minus the accuracy of this evaluation. \<open>init_of\<close> looks up the initial
  values at the start of the stream and \<open>t\<close> is the last training key.
\<close>

definition defined_forgetting ::
  "(('y \<times> 'l) list \<Rightarrow> real) \<Rightarrow> (int option \<Rightarrow> real option) \<Rightarrow> int option \<Rightarrow>
   ('y, 'l) evaluated_exp \<Rightarrow> real list" where
  "defined_forgetting acc init_of t x =
     (if exp_key x = t then []
      else (case init_of (exp_key x) of None \<Rightarrow> [] | Some i \<Rightarrow> [i - exp_accuracy acc x]))"

definition stream_forgetting_values ::
  "(('y \<times> 'l) list \<Rightarrow> real) \<Rightarrow> (int option \<Rightarrow> real option) \<Rightarrow> int option \<Rightarrow>
   ('y, 'l) evaluated_exp list \<Rightarrow> real list" where
  "stream_forgetting_values acc init_of t exps =
     concat (map (defined_forgetting acc init_of t) exps)"

text \<open>
  The experience that is evaluated is the one the strategy holds when its hooks run, and
  \<^verbatim>\<open>before_eval_exp\<close> is the first of them. Read by that key, whether or not the
  experience has an iteration, the forgetting values defined during a stream are the
  following. For an experience with an iteration whose strategies hold one key, this is
  \<open>defined_forgetting\<close>.
\<close>

definition exp_own_key :: "('y, 'l) evaluated_exp \<Rightarrow> int option" where
  "exp_own_key x = (case x of (sb, its, sa) \<Rightarrow> Some (current_experience sb))"

definition own_forgetting ::
  "(('y \<times> 'l) list \<Rightarrow> real) \<Rightarrow> (int option \<Rightarrow> real option) \<Rightarrow> int option \<Rightarrow>
   ('y, 'l) evaluated_exp \<Rightarrow> real list" where
  "own_forgetting acc init_of t x =
     (if exp_own_key x = t then []
      else (case init_of (exp_own_key x) of None \<Rightarrow> [] | Some i \<Rightarrow> [i - exp_accuracy acc x]))"



text \<open>
  The scenarios of the spec give each evaluation its accuracy. There a minibatch is
  represented by its share of correct predictions, the accuracy of an evaluation is the
  average share of its minibatches, and the names the helpers return are fixed.
\<close>

definition share_accuracy :: "(real \<times> unit) list \<Rightarrow> real" where
  "share_accuracy bs = (if bs = [] then 0 else sum_list (map fst bs) / real (length bs))"

definition on_exp :: "int \<Rightarrow> real \<Rightarrow> (real, unit) strategy" where
  "on_exp k a =
     \<lparr>current_experience = k, mb_y = a, logits = (), phase_name = ''eval'',
      stream_type = ''test'', exp_metric_name = ''Forgetting'', global_counter = 0\<rparr>"


section \<open>Properties of the Forgetting metric\<close>

subsection \<open>Dictionaries and the result\<close>

lemma dict_getitem_Some: "map_of d k = Some v \<Longrightarrow> dict_getitem d k = Inr v"
  by (simp add: dict_getitem_def)

lemma dict_getitem_None: "map_of d k = None \<Longrightarrow> dict_getitem d k = Inl KeyError"
  by (simp add: dict_getitem_def)

lemma map_of_dict_setitem: "map_of (dict_setitem k v d) = (map_of d)(k \<mapsto> v)"
  by (simp add: dict_setitem_def update_conv')

lemma dict_keys_setitem: "set (dict_keys (dict_setitem k v d)) = insert k (set (dict_keys d))"
  by (simp add: dict_setitem_def dict_keys_def dom_update)

lemma distinct_dict_setitem: "distinct (dict_keys d) \<Longrightarrow> distinct (dict_keys (dict_setitem k v d))"
  by (simp add: dict_setitem_def dict_keys_def distinct_update)

lemma dict_contains_keys: "dict_contains d k = (k \<in> set (dict_keys d))"
  by (simp add: dict_contains_def dict_keys_def map_of_eq_None_iff)

lemma forgetting_loop_total:
  "\<forall>j \<in> set ks. dict_contains (initial s) j \<and> dict_contains (last_d s) j \<Longrightarrow>
   \<exists>d. forgetting_loop s ks f = Inr d
      \<and> map_of d = (\<lambda>j. if j \<in> set ks then key_forgetting s j else map_of f j)
      \<and> set (dict_keys d) = set (dict_keys f) \<union> set ks
      \<and> (distinct (dict_keys f) \<longrightarrow> distinct (dict_keys d))"
proof (induction ks arbitrary: f)
  case Nil
  then show ?case by simp
next
  case (Cons k ks)
  from Cons.prems obtain a b where a: "map_of (initial s) k = Some a" and b: "map_of (last_d s) k = Some b"
    by (auto simp: dict_contains_def)
  from Cons.prems have "\<forall>j \<in> set ks. dict_contains (initial s) j \<and> dict_contains (last_d s) j"
    by simp
  from Cons.IH[OF this, of "dict_setitem k (a - b) f"]
  obtain d where d: "forgetting_loop s ks (dict_setitem k (a - b) f) = Inr d"
     "map_of d = (\<lambda>j. if j \<in> set ks then key_forgetting s j else map_of (dict_setitem k (a - b) f) j)"
     "set (dict_keys d) = set (dict_keys (dict_setitem k (a - b) f)) \<union> set ks"
     "distinct (dict_keys (dict_setitem k (a - b) f)) \<longrightarrow> distinct (dict_keys d)"
    by blast
  have "forgetting_loop s (k # ks) f = Inr d"
    using a b d(1) by (simp add: dict_getitem_Some)
  moreover have "map_of d = (\<lambda>j. if j \<in> set (k # ks) then key_forgetting s j else map_of f j)"
    using d(2) a b by (auto simp: fun_eq_iff map_of_dict_setitem key_forgetting_def)
  moreover have "set (dict_keys d) = set (dict_keys f) \<union> set (k # ks)"
    using d(3) by (auto simp: dict_keys_setitem)
  moreover have "distinct (dict_keys f) \<longrightarrow> distinct (dict_keys d)"
    using d(4) by (simp add: distinct_dict_setitem)
  ultimately show ?case by blast
qed

lemma both_keys_set: "set (both_keys s) = set (dict_keys (initial s)) \<inter> set (dict_keys (last_d s))"
  by (auto simp: both_keys_def)

lemma key_forgetting_None_iff: "(key_forgetting s j = None) = (j \<notin> set (dict_keys (initial s)) \<inter> set (dict_keys (last_d s)))"
  by (auto simp: key_forgetting_def dict_keys_def map_of_eq_None_iff split: option.splits)
     (metis map_of_eq_None_iff option.distinct(1))+

lemma Forgetting_result_None:
  fixes s :: "'a Forgetting"
  shows "\<exists>d. Forgetting_result None s = Inr (RDict d)
      \<and> map_of d = key_forgetting s
      \<and> set (dict_keys d) = set (dict_keys (initial s)) \<inter> set (dict_keys (last_d s))
      \<and> distinct (dict_keys d)"
proof -
  have "\<forall>j \<in> set (both_keys s). dict_contains (initial s) j \<and> dict_contains (last_d s) j"
    by (simp add: both_keys_set dict_contains_keys)
  from forgetting_loop_total[OF this, of "[]"] obtain d where
    d: "forgetting_loop s (both_keys s) [] = Inr d"
       "map_of d = (\<lambda>j. if j \<in> set (both_keys s) then key_forgetting s j else map_of [] j)"
       "set (dict_keys d) = set (dict_keys ([]::('a option \<times> real) list)) \<union> set (both_keys s)"
       "distinct (dict_keys ([]::('a option \<times> real) list)) \<longrightarrow> distinct (dict_keys d)"
    by blast
  have "map_of d = key_forgetting s"
  proof
    fix j
    show "map_of d j = key_forgetting s j"
    proof (cases "j \<in> set (both_keys s)")
      case True
      then show ?thesis using d(2) by simp
    next
      case False
      then have "key_forgetting s j = None"
        by (simp add: key_forgetting_None_iff both_keys_set)
      then show ?thesis using d(2) False by simp
    qed
  qed
  with d show ?thesis by (simp add: Forgetting_result_def both_keys_set dict_keys_def)
qed

lemma Forgetting_result_Some:
  "Forgetting_result (Some k) s =
     Inr (case key_forgetting s (Some k) of None \<Rightarrow> RNone | Some d \<Rightarrow> RFloat d)"
  by (auto simp: Forgetting_result_def dict_contains_def dict_getitem_def key_forgetting_def
           split: option.splits)


subsection \<open>Calls never raise\<close>

lemma Forgetting_result_total: "\<exists>r. Forgetting_result j s = Inr r"
proof (cases j)
  case None
  then show ?thesis using Forgetting_result_None[of s] by auto
next
  case (Some k)
  then show ?thesis by (simp add: Forgetting_result_Some)
qed

lemma Forgetting_call_total: "\<exists>s' r. Forgetting_call c s = Inr (s', r)"
proof (cases c)
  case (Result j)
  then show ?thesis using Forgetting_result_total[of j s] by auto
qed simp_all

lemma Forgetting_calls_total: "\<exists>s' rs. Forgetting_calls cs s = Inr (s', rs)"
proof (induction cs arbitrary: s)
  case Nil
  then show ?case by simp
next
  case (Cons c cs)
  obtain s1 r where c: "Forgetting_call c s = Inr (s1, r)"
    using Forgetting_call_total by blast
  obtain s2 rs where "Forgetting_calls cs s1 = Inr (s2, rs)"
    using Cons.IH by blast
  with c show ?case by simp
qed

lemma Forgetting_call_keys:
  assumes "Forgetting_call c s = Inr (s', r)" and "\<not> is_reset c"
  shows "set (dict_keys (initial s')) = set (dict_keys (initial s)) \<union> writes_initial c"
    and "set (dict_keys (last_d s')) = set (dict_keys (last_d s)) \<union> writes_last c"
  using assms
  by (cases c; auto simp: Forgetting_update_initial_def Forgetting_update_last_def
        Forgetting_update_def dict_keys_setitem split: sum.splits)+

lemma Forgetting_calls_keys:
  assumes "Forgetting_calls cs s = Inr (s', rs)" and "\<forall>c \<in> set cs. \<not> is_reset c"
  shows "set (dict_keys (initial s')) = set (dict_keys (initial s)) \<union> (\<Union>c \<in> set cs. writes_initial c)
       \<and> set (dict_keys (last_d s')) = set (dict_keys (last_d s)) \<union> (\<Union>c \<in> set cs. writes_last c)"
  using assms
proof (induction cs arbitrary: s s' rs)
  case Nil
  then show ?case by simp
next
  case (Cons c cs)
  obtain s1 r where c: "Forgetting_call c s = Inr (s1, r)"
    using Forgetting_call_total by blast
  obtain s2 rs2 where cs: "Forgetting_calls cs s1 = Inr (s2, rs2)"
    using Forgetting_calls_total by blast
  from Cons.prems(1) c cs have eq: "s' = s2" by simp
  from Cons.prems(2) have nr: "\<not> is_reset c" "\<forall>c \<in> set cs. \<not> is_reset c" by simp_all
  from Cons.IH[OF cs nr(2)] Forgetting_call_keys[OF c nr(1)] eq
  show ?case by auto
qed

lemma Forgetting_call_last_absent:
  assumes "Forgetting_call c s = Inr (s', r)" and "j \<notin> writes_last c"
    and "map_of (last_d s) j = None"
  shows "map_of (last_d s') j = None"
  using assms
  by (cases c; auto simp: Forgetting_update_initial_def Forgetting_update_last_def
        Forgetting_update_def Forgetting_reset_def Forgetting_reset_last_def
        map_of_dict_setitem split: sum.splits if_splits)

lemma Forgetting_calls_last_absent:
  assumes "Forgetting_calls cs s = Inr (s', rs)" and "\<forall>c \<in> set cs. j \<notin> writes_last c"
    and "map_of (last_d s) j = None"
  shows "map_of (last_d s') j = None"
  using assms
proof (induction cs arbitrary: s s' rs)
  case Nil
  then show ?case by simp
next
  case (Cons c cs)
  obtain s1 r where c: "Forgetting_call c s = Inr (s1, r)"
    using Forgetting_call_total by blast
  obtain s2 rs2 where cs: "Forgetting_calls cs s1 = Inr (s2, rs2)"
    using Forgetting_calls_total by blast
  from Cons.prems(1) c cs have eq: "s' = s2" by simp
  have "map_of (last_d s1) j = None"
    using Forgetting_call_last_absent[OF c _ Cons.prems(3)] Cons.prems(2) by simp
  from Cons.IH[OF cs _ this] Cons.prems(2) eq show ?case by simp
qed

subsection \<open>The tracker's contract\<close>

text \<open>
  Claim C2. For a proper key \<open>k\<close>, \<^verbatim>\<open>result(k)\<close> is \<^verbatim>\<open>None\<close> on a fresh tracker and after
  \<^verbatim>\<open>update_initial(k, v)\<close> alone; in any state it is the difference of the initial and
  the last value of \<open>k\<close> when both dictionaries hold \<open>k\<close>, and \<^verbatim>\<open>None\<close> otherwise; after
  \<^verbatim>\<open>update_initial(k, a)\<close> and \<^verbatim>\<open>update_last(k, b)\<close>, in either order, it is \<open>a - b\<close>. No
  query raises, with or without a key: \<^verbatim>\<open>result\<close> always returns a value.
\<close>

theorem C2_result_of_key:
  "Forgetting_result (Some k) Forgetting_init = Inr RNone
   \<and> Forgetting_result (Some k) (Forgetting_update_initial (Some k) v Forgetting_init) = Inr RNone
   \<and> Forgetting_result (Some k) s =
       Inr (case map_of (initial s) (Some k) of
              None \<Rightarrow> RNone
            | Some a \<Rightarrow> (case map_of (last_d s) (Some k) of
                           None \<Rightarrow> RNone | Some b \<Rightarrow> RFloat (a - b)))
   \<and> Forgetting_result (Some k)
         (Forgetting_update_last (Some k) b (Forgetting_update_initial (Some k) a s))
       = Inr (RFloat (a - b))
   \<and> Forgetting_result (Some k)
         (Forgetting_update_initial (Some k) a (Forgetting_update_last (Some k) b s))
       = Inr (RFloat (a - b))
   \<and> ((\<exists>d. Forgetting_result (Some k) s = Inr (RFloat d))
        = (dict_contains (initial s) (Some k) \<and> dict_contains (last_d s) (Some k)))
   \<and> ((Forgetting_result (Some k) s = Inr RNone)
        = (\<not> (dict_contains (initial s) (Some k) \<and> dict_contains (last_d s) (Some k))))
   \<and> (\<exists>r. Forgetting_result j s = Inr r)"
proof -
  have 1: "Forgetting_result (Some k) s =
       Inr (case map_of (initial s) (Some k) of
              None \<Rightarrow> RNone
            | Some a \<Rightarrow> (case map_of (last_d s) (Some k) of
                           None \<Rightarrow> RNone | Some b \<Rightarrow> RFloat (a - b)))" for s :: "'a Forgetting"
    by (simp add: Forgetting_result_Some key_forgetting_def split: option.splits)
  have 2: "Forgetting_result (Some k) Forgetting_init = Inr RNone"
    by (simp add: 1 Forgetting_init_def)
  have 3: "Forgetting_result (Some k) (Forgetting_update_initial (Some k) v Forgetting_init) = Inr RNone"
    by (simp add: 1 Forgetting_init_def Forgetting_update_initial_def map_of_dict_setitem)
  have 4: "Forgetting_result (Some k)
         (Forgetting_update_last (Some k) b (Forgetting_update_initial (Some k) a s))
       = Inr (RFloat (a - b))"
    by (simp add: 1 Forgetting_update_last_def Forgetting_update_initial_def map_of_dict_setitem)
  have 5: "Forgetting_result (Some k)
         (Forgetting_update_initial (Some k) a (Forgetting_update_last (Some k) b s))
       = Inr (RFloat (a - b))"
    by (simp add: 1 Forgetting_update_last_def Forgetting_update_initial_def map_of_dict_setitem)
  have 6: "(\<exists>d. Forgetting_result (Some k) s = Inr (RFloat d))
        = (dict_contains (initial s) (Some k) \<and> dict_contains (last_d s) (Some k))"
    by (auto simp: 1 dict_contains_def split: option.splits)
  have 7: "(Forgetting_result (Some k) s = Inr RNone)
        = (\<not> (dict_contains (initial s) (Some k) \<and> dict_contains (last_d s) (Some k)))"
    by (auto simp: 1 dict_contains_def split: option.splits)
  show ?thesis
    using 1[of s] 2 3 4 5 6 7 Forgetting_result_total[of j s] by blast
qed

text \<open>
  Claim C9. After \<^verbatim>\<open>reset()\<close> both dictionaries are empty, the tracker is equal to a
  freshly constructed one, and every sequence of calls returns on it what it returns on a
  fresh tracker.
\<close>

theorem C9_reset_is_fresh:
  "initial (Forgetting_reset s) = [] \<and> last_d (Forgetting_reset s) = []
   \<and> Forgetting_reset s = Forgetting_init
   \<and> Forgetting_calls cs (Forgetting_reset s) = Forgetting_calls cs Forgetting_init"
proof -
  have "Forgetting_reset s = Forgetting_init"
    by (cases s) (simp add: Forgetting_reset_def Forgetting_init_def)
  then show ?thesis by (simp add: Forgetting_init_def)
qed


text \<open>
  Claim C5. In every state \<^verbatim>\<open>result()\<close> without a key returns a dictionary (it does not
  raise) whose keys are exactly the keys of both \<^verbatim>\<open>initial\<close> and \<^verbatim>\<open>last\<close>, each once and
  each mapped to its initial minus its last value; a key of one dictionary only is left
  out. The key set does not depend on the order of the insertions: two sequences of
  calls without resets that make the same calls in different orders give the same keys.
\<close>

theorem C5_result_all_keys:
  fixes s :: "'k Forgetting" and cs cs' :: "'k tracker_call list"
  shows
  "(\<exists>d. Forgetting_result None s = Inr (RDict d)
        \<and> set (dict_keys d) = set (dict_keys (initial s)) \<inter> set (dict_keys (last_d s))
        \<and> distinct (dict_keys d)
        \<and> map_of d = key_forgetting s)
   \<and> ((\<forall>c \<in> set cs. \<not> is_reset c) \<and> set cs = set cs' \<longrightarrow>
        (\<exists>s1 rs1 d1 s2 rs2 d2.
            Forgetting_calls cs Forgetting_init = Inr (s1, rs1)
          \<and> Forgetting_calls cs' Forgetting_init = Inr (s2, rs2)
          \<and> Forgetting_result None s1 = Inr (RDict d1)
          \<and> Forgetting_result None s2 = Inr (RDict d2)
          \<and> set (dict_keys d1) = set (dict_keys d2)))"
proof (intro conjI impI)
  show "\<exists>d. Forgetting_result None s = Inr (RDict d)
        \<and> set (dict_keys d) = set (dict_keys (initial s)) \<inter> set (dict_keys (last_d s))
        \<and> distinct (dict_keys d)
        \<and> map_of d = key_forgetting s"
    using Forgetting_result_None[of s] by blast
next
  assume h: "(\<forall>c \<in> set cs. \<not> is_reset c) \<and> set cs = set cs'"
  obtain s1 rs1 where r1: "Forgetting_calls cs (Forgetting_init :: 'k Forgetting) = Inr (s1, rs1)"
    using Forgetting_calls_total by blast
  obtain s2 rs2 where r2: "Forgetting_calls cs' (Forgetting_init :: 'k Forgetting) = Inr (s2, rs2)"
    using Forgetting_calls_total by blast
  obtain d1 where d1: "Forgetting_result None s1 = Inr (RDict d1)"
    "set (dict_keys d1) = set (dict_keys (initial s1)) \<inter> set (dict_keys (last_d s1))"
    using Forgetting_result_None[of s1] by blast
  obtain d2 where d2: "Forgetting_result None s2 = Inr (RDict d2)"
    "set (dict_keys d2) = set (dict_keys (initial s2)) \<inter> set (dict_keys (last_d s2))"
    using Forgetting_result_None[of s2] by blast
  from h have nr: "\<forall>c \<in> set cs. \<not> is_reset c" "\<forall>c \<in> set cs'. \<not> is_reset c" by auto
  have "set (dict_keys d1) = set (dict_keys d2)"
    using Forgetting_calls_keys[OF r1 nr(1)] Forgetting_calls_keys[OF r2 nr(2)] d1(2) d2(2) h
    by simp
  with r1 r2 d1(1) d2(1)
  show "\<exists>s1 rs1 d1 s2 rs2 d2.
            Forgetting_calls cs (Forgetting_init :: 'k Forgetting) = Inr (s1, rs1)
          \<and> Forgetting_calls cs' Forgetting_init = Inr (s2, rs2)
          \<and> Forgetting_result None s1 = Inr (RDict d1)
          \<and> Forgetting_result None s2 = Inr (RDict d2)
          \<and> set (dict_keys d1) = set (dict_keys d2)"
    by blast
qed

lemmas tracker_eval =
  Forgetting_init_def Forgetting_update_initial_def Forgetting_update_last_def
  Forgetting_update_def Forgetting_reset_def Forgetting_reset_last_def
  Forgetting_result_def both_keys_def dict_contains_def dict_getitem_def
  dict_setitem_def dict_keys_def

text \<open>The theorem at a concrete input.\<close>

theorem C5_result_all_keys_witness:
  "list_all (\<lambda>c. \<not> is_reset c)
      [UpdateInitial (Some (1::int)) (9/10), UpdateLast (Some 2) (5/10),
       UpdateLast (Some 1) (7/10), UpdateInitial (Some 3) (4/10)]
   \<and> set [UpdateInitial (Some (1::int)) (9/10), UpdateLast (Some 2) (5/10),
           UpdateLast (Some 1) (7/10), UpdateInitial (Some 3) (4/10)]
     = set [UpdateLast (Some 1) (7/10), UpdateInitial (Some 3) (4/10),
            UpdateLast (Some 2) (5/10), UpdateInitial (Some (1::int)) (9/10)]
   \<and> Forgetting_result None
        \<lparr>initial = [(Some (1::int), 9/10), (Some 3, 4/10)],
         last_d = [(Some 2, 5/10), (Some 1, 7/10)]\<rparr>
       = Inr (RDict [(Some 1, 2/10)])
   \<and> (\<exists>s1 rs1 d1 s2 rs2 d2.
          Forgetting_calls [UpdateInitial (Some (1::int)) (9/10), UpdateLast (Some 2) (5/10),
                  UpdateLast (Some 1) (7/10), UpdateInitial (Some 3) (4/10)] Forgetting_init
            = Inr (s1, rs1)
        \<and> Forgetting_calls [UpdateLast (Some 1) (7/10), UpdateInitial (Some 3) (4/10),
            UpdateLast (Some 2) (5/10), UpdateInitial (Some (1::int)) (9/10)] Forgetting_init
            = Inr (s2, rs2)
        \<and> Forgetting_result None s1 = Inr (RDict d1)
        \<and> Forgetting_result None s2 = Inr (RDict d2)
        \<and> set (dict_keys d1) = set (dict_keys d2))"
proof -
  let ?cs = "[UpdateInitial (Some (1::int)) (9/10), UpdateLast (Some 2) (5/10),
                  UpdateLast (Some 1) (7/10), UpdateInitial (Some 3) (4/10)]"
  let ?cs' = "[UpdateLast (Some 1) (7/10), UpdateInitial (Some 3) (4/10),
            UpdateLast (Some 2) (5/10), UpdateInitial (Some (1::int)) (9/10)]"
  have h: "(\<forall>c \<in> set ?cs. \<not> is_reset c) \<and> set ?cs = set ?cs'"
    by auto
  have e: "Forgetting_result None
        \<lparr>initial = [(Some (1::int), 9/10), (Some 3, 4/10)],
         last_d = [(Some 2, 5/10), (Some 1, 7/10)]\<rparr>
       = Inr (RDict [(Some 1, 2/10)])"
    by (simp add: tracker_eval)
  from C5_result_all_keys[of _ ?cs ?cs'] h e show ?thesis
    by (simp add: list_all_iff)
qed

text \<open>
  Claim C6. \<^verbatim>\<open>reset_last()\<close> leaves \<^verbatim>\<open>initial\<close> as it is and empties \<^verbatim>\<open>last\<close>. Afterwards
  \<^verbatim>\<open>result(k)\<close> is \<^verbatim>\<open>None\<close>, and stays so over every sequence of calls that does not write
  a last value for \<open>k\<close>; a following \<^verbatim>\<open>update_last(k, b)\<close> makes it the initial value of
  \<open>k\<close> minus \<open>b\<close> again, when \<open>k\<close> has an initial value.
\<close>

theorem C6_reset_last:
  "initial (Forgetting_reset_last s) = initial s
   \<and> last_d (Forgetting_reset_last s) = []
   \<and> Forgetting_result (Some k) (Forgetting_reset_last s) = Inr RNone
   \<and> ((\<forall>c \<in> set cs. Some k \<notin> writes_last c) \<longrightarrow>
        (\<exists>s' rs. Forgetting_calls cs (Forgetting_reset_last s) = Inr (s', rs)
                \<and> Forgetting_result (Some k) s' = Inr RNone))
   \<and> Forgetting_result (Some k) (Forgetting_update_last (Some k) b (Forgetting_reset_last s))
       = Inr (case map_of (initial s) (Some k) of None \<Rightarrow> RNone | Some a \<Rightarrow> RFloat (a - b))"
proof (intro conjI impI)
  show "initial (Forgetting_reset_last s) = initial s"
    by (simp add: Forgetting_reset_last_def)
  show "last_d (Forgetting_reset_last s) = []"
    by (simp add: Forgetting_reset_last_def)
  show "Forgetting_result (Some k) (Forgetting_reset_last s) = Inr RNone"
    by (simp add: Forgetting_result_Some key_forgetting_def Forgetting_reset_last_def
             split: option.splits)
  show "Forgetting_result (Some k) (Forgetting_update_last (Some k) b (Forgetting_reset_last s))
       = Inr (case map_of (initial s) (Some k) of None \<Rightarrow> RNone | Some a \<Rightarrow> RFloat (a - b))"
    by (simp add: Forgetting_result_Some key_forgetting_def Forgetting_reset_last_def
             Forgetting_update_last_def map_of_dict_setitem split: option.splits)
next
  assume h: "\<forall>c \<in> set cs. Some k \<notin> writes_last c"
  obtain s' rs where r: "Forgetting_calls cs (Forgetting_reset_last s) = Inr (s', rs)"
    using Forgetting_calls_total by blast
  have "map_of (last_d (Forgetting_reset_last s)) (Some k) = None"
    by (simp add: Forgetting_reset_last_def)
  from Forgetting_calls_last_absent[OF r h this]
  have "Forgetting_result (Some k) s' = Inr RNone"
    by (simp add: Forgetting_result_Some key_forgetting_def split: option.splits)
  with r show "\<exists>s' rs. Forgetting_calls cs (Forgetting_reset_last s) = Inr (s', rs)
                \<and> Forgetting_result (Some k) s' = Inr RNone"
    by blast
qed

text \<open>The theorem at a concrete input.\<close>

theorem C6_reset_last_witness:
  "list_all (\<lambda>c. Some 0 \<notin> writes_last c)
      [UpdateInitial (Some (0::int)) (8/10), UpdateLast (Some 1) (3/10), Result (Some 0)]
   \<and> Forgetting_result (Some (0::int))
        \<lparr>initial = [(Some 0, 9/10)], last_d = [(Some 0, 7/10)]\<rparr> = Inr (RFloat (2/10))
   \<and> Forgetting_calls [UpdateInitial (Some (0::int)) (8/10), UpdateLast (Some 1) (3/10), Result (Some 0)]
        (Forgetting_reset_last \<lparr>initial = [(Some 0, 9/10)], last_d = [(Some 0, 7/10)]\<rparr>)
       = Inr (\<lparr>initial = [(Some 0, 8/10)], last_d = [(Some 1, 3/10)]\<rparr>, [RNone, RNone, RNone])
   \<and> Forgetting_result (Some (0::int))
        (Forgetting_update_last (Some 0) (5/10)
          (Forgetting_reset_last \<lparr>initial = [(Some 0, 9/10)], last_d = [(Some 0, 7/10)]\<rparr>))
       = Inr (RFloat (4/10))"
  using C6_reset_last[of "\<lparr>initial = [(Some (0::int), 9/10)], last_d = [(Some 0, 7/10)]\<rparr>" 0
          "[UpdateInitial (Some (0::int)) (8/10), UpdateLast (Some 1) (3/10), Result (Some 0)]"
          "5/10"]
  by (simp add: tracker_eval)

section \<open>Properties of the plugin metrics\<close>

subsection \<open>Steps of ExperienceForgetting\<close>

lemma Forgetting_update_maps:
  "map_of (initial (Forgetting_update j v b f)) =
     (if b then (map_of (initial f))(j \<mapsto> v) else map_of (initial f))"
  "map_of (last_d (Forgetting_update j v b f)) =
     (if b then map_of (last_d f) else (map_of (last_d f))(j \<mapsto> v))"
  by (simp_all add: Forgetting_update_def Forgetting_update_initial_def
        Forgetting_update_last_def map_of_dict_setitem)

lemma Forgetting_update_frame:
  "b \<Longrightarrow> last_d (Forgetting_update j v b f) = last_d f"
  "\<not> b \<Longrightarrow> initial (Forgetting_update j v b f) = initial f"
  by (simp_all add: Forgetting_update_def Forgetting_update_initial_def
        Forgetting_update_last_def)

lemma ExperienceForgetting_after_eval_exp_key:
  assumes "eval_exp_id s = Some k"
  shows "ExperienceForgetting_after_eval_exp acc st s =
     Inr (ExperienceForgetting_update (Some k) (acc (current_accuracy s))
            (train_exp_id s = Some k) s,
          (case key_forgetting
                  (Forgetting_update (Some k) (acc (current_accuracy s))
                     (train_exp_id s = Some k) (forgetting s)) (Some k) of
             None \<Rightarrow> None
           | Some d \<Rightarrow>
               Some [\<lparr>mv_origin = ''ExperienceForgetting'', mv_name = exp_metric_name st,
                      mv_value = RFloat d, mv_x_plot = global_counter st\<rparr>]))"
  using assms
  by (simp add: ExperienceForgetting_after_eval_exp_def ExperienceForgetting_update_def
        ExperienceForgetting_result_def ExperienceForgetting_package_result_def
        Forgetting_result_Some Let_def split: option.splits)

lemma ExperienceForgetting_after_eval_exp_total:
  "\<exists>out. ExperienceForgetting_after_eval_exp acc st s =
     Inr (ExperienceForgetting_update (eval_exp_id s) (acc (current_accuracy s))
            (train_exp_id s = eval_exp_id s) s, out)"
proof (cases "eval_exp_id s")
  case None
  let ?s1 = "ExperienceForgetting_update None (acc (current_accuracy s))
            (train_exp_id s = None) s"
  obtain d where "Forgetting_result None (forgetting ?s1) = Inr (RDict d)"
    using Forgetting_result_None by blast
  moreover have "eval_exp_id ?s1 = None"
    using None by (simp add: ExperienceForgetting_update_def)
  ultimately show ?thesis
    using None
    by (auto simp: ExperienceForgetting_after_eval_exp_def ExperienceForgetting_result_def
          ExperienceForgetting_package_result_def Let_def)
next
  case (Some k)
  then show ?thesis
    using ExperienceForgetting_after_eval_exp_key[OF Some, of acc st] by simp
qed

lemma ExperienceForgetting_hook_state:
  "\<exists>s' out. ExperienceForgetting_hook acc e s = Inr (s', out)
     \<and> train_exp_id s' =
         (case e of BeforeTrainingExp st \<Rightarrow> Some (current_experience st) | _ \<Rightarrow> train_exp_id s)
     \<and> eval_exp_id s' =
         (case e of AfterEvalIteration st \<Rightarrow> Some (current_experience st) | _ \<Rightarrow> eval_exp_id s)
     \<and> forgetting s' =
         (case e of
            BeforeEval st \<Rightarrow> Forgetting_reset_last (forgetting s)
          | AfterEvalExp st \<Rightarrow>
              Forgetting_update (eval_exp_id s) (acc (current_accuracy s))
                (train_exp_id s = eval_exp_id s) (forgetting s)
          | _ \<Rightarrow> forgetting s)"
proof (cases e)
  case (AfterEvalExp st)
  then show ?thesis
    using ExperienceForgetting_after_eval_exp_total[of acc st s]
    by (auto simp: ExperienceForgetting_update_def)
qed (simp_all add: ExperienceForgetting_before_training_exp_def
       ExperienceForgetting_before_eval_def ExperienceForgetting_reset_last_accuracy_def
       ExperienceForgetting_before_eval_exp_def ExperienceForgetting_after_eval_iteration_def)

lemma ExperienceForgetting_run_total:
  "\<exists>s' outs. ExperienceForgetting_run acc evs s = Inr (s', outs)"
proof (induction evs arbitrary: s)
  case Nil
  then show ?case by simp
next
  case (Cons e evs)
  obtain s1 out where h: "ExperienceForgetting_hook acc e s = Inr (s1, out)"
    using ExperienceForgetting_hook_state[of acc e s] by blast
  obtain s2 outs where "ExperienceForgetting_run acc evs s1 = Inr (s2, outs)"
    using Cons.IH by blast
  with h show ?case by simp
qed


subsection \<open>Steps of StreamForgetting\<close>

lemma StreamForgetting_after_eval_exp_key:
  assumes "s_eval_exp_id s = Some k"
  shows "StreamForgetting_after_eval_exp acc st s =
     Inr ((StreamForgetting_exp_update (Some k) (acc (s_current_accuracy s))
            (s_train_exp_id s = Some k) s)
          \<lparr>stream_forgetting :=
             stream_forgetting s @
             (case key_forgetting
                  (Forgetting_update (Some k) (acc (s_current_accuracy s))
                     (s_train_exp_id s = Some k) (s_forgetting s)) (Some k) of
                None \<Rightarrow> []
              | Some d \<Rightarrow> [(d, 1)])\<rparr>)"
  using assms
  by (simp add: StreamForgetting_after_eval_exp_def StreamForgetting_exp_update_def
        StreamForgetting_exp_result_def Mean_update_def
        Forgetting_result_Some Let_def split: option.splits)

lemma StreamForgetting_hook_state:
  assumes "StreamForgetting_hook acc e s = Inr (s', out)"
  shows "s_train_exp_id s' =
         (case e of BeforeTrainingExp st \<Rightarrow> Some (current_experience st) | _ \<Rightarrow> s_train_exp_id s)
     \<and> s_eval_exp_id s' =
         (case e of AfterEvalIteration st \<Rightarrow> Some (current_experience st) | _ \<Rightarrow> s_eval_exp_id s)
     \<and> s_forgetting s' =
         (case e of
            BeforeEval st \<Rightarrow> Forgetting_reset_last (s_forgetting s)
          | AfterEvalExp st \<Rightarrow>
              Forgetting_update (s_eval_exp_id s) (acc (s_current_accuracy s))
                (s_train_exp_id s = s_eval_exp_id s) (s_forgetting s)
          | _ \<Rightarrow> s_forgetting s)"
proof (cases e)
  case (AfterEvalExp st)
  then show ?thesis
    using assms
    by (auto simp: StreamForgetting_after_eval_exp_def StreamForgetting_exp_update_def
          Let_def split: sum.splits if_splits)
qed (use assms in \<open>auto simp: StreamForgetting_before_training_exp_def
       StreamForgetting_before_eval_def StreamForgetting_reset_last_accuracy_def
       StreamForgetting_before_eval_exp_def StreamForgetting_after_eval_iteration_def Let_def\<close>)

lemma StreamForgetting_hook_emits:
  assumes "StreamForgetting_hook acc e s = Inr (s', out)"
  shows "out = (case e of AfterEval st \<Rightarrow> Some (StreamForgetting_after_eval st s) | _ \<Rightarrow> None)"
  using assms by (cases e) (auto split: sum.splits)

subsection \<open>Runs\<close>

lemma ExperienceForgetting_run_append:
  "ExperienceForgetting_run acc (xs @ ys) s =
     (case ExperienceForgetting_run acc xs s of
        Inl err \<Rightarrow> Inl err
      | Inr (s', o1) \<Rightarrow>
          (case ExperienceForgetting_run acc ys s' of
             Inl err \<Rightarrow> Inl err
           | Inr (s'', o2) \<Rightarrow> Inr (s'', o1 @ o2)))"
  by (induction xs arbitrary: s) (auto split: sum.splits)

lemma StreamForgetting_run_append:
  "StreamForgetting_run acc (xs @ ys) s =
     (case StreamForgetting_run acc xs s of
        Inl err \<Rightarrow> Inl err
      | Inr (s', o1) \<Rightarrow>
          (case StreamForgetting_run acc ys s' of
             Inl err \<Rightarrow> Inl err
           | Inr (s'', o2) \<Rightarrow> Inr (s'', o1 @ o2)))"
  by (induction xs arbitrary: s) (auto split: sum.splits)

subsection \<open>Keys that are never recorded as trained\<close>

lemma never_trained_step:
  assumes "\<not> recorded_as_trained k t e (ev # rest)"
    and "map_of (initial f) (Some k) = None"
    and "t' = (case ev of BeforeTrainingExp st \<Rightarrow> Some (current_experience st) | _ \<Rightarrow> t)"
    and "e' = (case ev of AfterEvalIteration st \<Rightarrow> Some (current_experience st) | _ \<Rightarrow> e)"
    and "f' = (case ev of
            BeforeEval st \<Rightarrow> Forgetting_reset_last f
          | AfterEvalExp st \<Rightarrow> Forgetting_update e a (t = e) f
          | _ \<Rightarrow> f)"
  shows "\<not> recorded_as_trained k t' e' rest \<and> map_of (initial f') (Some k) = None"
  using assms
  by (cases ev) (auto simp: Forgetting_reset_last_def Forgetting_update_maps)

lemma ExperienceForgetting_never_trained:
  assumes "ExperienceForgetting_run acc evs s = Inr (s', outs)"
    and "\<not> recorded_as_trained k (train_exp_id s) (eval_exp_id s) (evs @ rest)"
    and "map_of (initial (forgetting s)) (Some k) = None"
  shows "\<not> recorded_as_trained k (train_exp_id s') (eval_exp_id s') rest
       \<and> map_of (initial (forgetting s')) (Some k) = None"
  using assms
proof (induction evs arbitrary: s outs)
  case Nil
  then show ?case by simp
next
  case (Cons ev evs)
  obtain s1 out where h: "ExperienceForgetting_hook acc ev s = Inr (s1, out)"
    and st: "train_exp_id s1 =
         (case ev of BeforeTrainingExp st \<Rightarrow> Some (current_experience st) | _ \<Rightarrow> train_exp_id s)"
      "eval_exp_id s1 =
         (case ev of AfterEvalIteration st \<Rightarrow> Some (current_experience st) | _ \<Rightarrow> eval_exp_id s)"
      "forgetting s1 =
         (case ev of
            BeforeEval st \<Rightarrow> Forgetting_reset_last (forgetting s)
          | AfterEvalExp st \<Rightarrow>
              Forgetting_update (eval_exp_id s) (acc (current_accuracy s))
                (train_exp_id s = eval_exp_id s) (forgetting s)
          | _ \<Rightarrow> forgetting s)"
    using ExperienceForgetting_hook_state[of acc ev s] by blast
  obtain outs1 where r: "ExperienceForgetting_run acc evs s1 = Inr (s', outs1)"
    using Cons.prems(1) h by (auto split: sum.splits)
  from Cons.prems(2) have nr: "\<not> recorded_as_trained k (train_exp_id s) (eval_exp_id s) (ev # (evs @ rest))"
    by simp
  from never_trained_step[OF nr Cons.prems(3) st]
  have "\<not> recorded_as_trained k (train_exp_id s1) (eval_exp_id s1) (evs @ rest)"
    "map_of (initial (forgetting s1)) (Some k) = None" by simp_all
  from Cons.IH[OF r this] show ?case .
qed

lemma StreamForgetting_never_trained:
  assumes "StreamForgetting_run acc evs s = Inr (s', outs)"
    and "\<not> recorded_as_trained k (s_train_exp_id s) (s_eval_exp_id s) (evs @ rest)"
    and "map_of (initial (s_forgetting s)) (Some k) = None"
  shows "\<not> recorded_as_trained k (s_train_exp_id s') (s_eval_exp_id s') rest
       \<and> map_of (initial (s_forgetting s')) (Some k) = None"
  using assms
proof (induction evs arbitrary: s outs)
  case Nil
  then show ?case by simp
next
  case (Cons ev evs)
  obtain s1 out outs1 where h: "StreamForgetting_hook acc ev s = Inr (s1, out)"
    and r: "StreamForgetting_run acc evs s1 = Inr (s', outs1)"
    using Cons.prems(1) by (auto split: sum.splits)
  note st = StreamForgetting_hook_state[OF h]
  from Cons.prems(2) have nr: "\<not> recorded_as_trained k (s_train_exp_id s) (s_eval_exp_id s) (ev # (evs @ rest))"
    by simp
  from never_trained_step[OF nr Cons.prems(3), of "s_train_exp_id s1" "s_eval_exp_id s1"
        "s_forgetting s1" "acc (s_current_accuracy s)"] st
  have "\<not> recorded_as_trained k (s_train_exp_id s1) (s_eval_exp_id s1) (evs @ rest)"
    "map_of (initial (s_forgetting s1)) (Some k) = None" by simp_all
  from Cons.IH[OF r this] show ?case .
qed

subsection \<open>The first evaluation of a trained key\<close>

lemma same_key_no_last_step:
  assumes "\<not> is_BeforeTrainingExp ev" and "map_of (last_d f) t = None"
    and "f' = (case ev of
            BeforeEval st \<Rightarrow> Forgetting_reset_last f
          | AfterEvalExp st \<Rightarrow> Forgetting_update e a (t = e) f
          | _ \<Rightarrow> f)"
  shows "map_of (last_d f') t = None"
  using assms
  by (cases ev) (auto simp: Forgetting_reset_last_def Forgetting_update_maps)

lemma ExperienceForgetting_no_last_in_stream:
  assumes "ExperienceForgetting_run acc evs s = Inr (s', outs)"
    and "\<forall>ev \<in> set evs. \<not> is_BeforeTrainingExp ev"
    and "map_of (last_d (forgetting s)) (train_exp_id s) = None"
  shows "train_exp_id s' = train_exp_id s
       \<and> map_of (last_d (forgetting s')) (train_exp_id s) = None"
  using assms
proof (induction evs arbitrary: s outs)
  case Nil
  then show ?case by simp
next
  case (Cons ev evs)
  obtain s1 out where h: "ExperienceForgetting_hook acc ev s = Inr (s1, out)"
    and st: "train_exp_id s1 =
         (case ev of BeforeTrainingExp st \<Rightarrow> Some (current_experience st) | _ \<Rightarrow> train_exp_id s)"
      "forgetting s1 =
         (case ev of
            BeforeEval st \<Rightarrow> Forgetting_reset_last (forgetting s)
          | AfterEvalExp st \<Rightarrow>
              Forgetting_update (eval_exp_id s) (acc (current_accuracy s))
                (train_exp_id s = eval_exp_id s) (forgetting s)
          | _ \<Rightarrow> forgetting s)"
    using ExperienceForgetting_hook_state[of acc ev s] by blast
  obtain outs1 where r: "ExperienceForgetting_run acc evs s1 = Inr (s', outs1)"
    using Cons.prems(1) h by (auto split: sum.splits)
  from Cons.prems(2) have nt: "\<not> is_BeforeTrainingExp ev" "\<forall>ev \<in> set evs. \<not> is_BeforeTrainingExp ev"
    by simp_all
  have t1: "train_exp_id s1 = train_exp_id s"
    using st(1) nt(1) by (cases ev) simp_all
  have "map_of (last_d (forgetting s1)) (train_exp_id s) = None"
    using same_key_no_last_step[OF nt(1) Cons.prems(3) st(2)] .
  with t1 have "map_of (last_d (forgetting s1)) (train_exp_id s1) = None" by simp
  from Cons.IH[OF r nt(2) this] t1 show ?case by simp
qed

text \<open>
  Claim C1. For ExperienceForgetting at \<^verbatim>\<open>after_eval_exp\<close>: when the training key and the
  evaluated key are the same key \<open>k\<close> and \<open>k\<close> has no last value, the accumulated accuracy
  becomes the initial value of \<open>k\<close>, nothing is emitted and \<^verbatim>\<open>result(k)\<close> is \<^verbatim>\<open>None\<close>. The
  key has no last value anywhere in an evaluation stream: after \<^verbatim>\<open>before_eval\<close> and any
  events other than \<^verbatim>\<open>before_training_exp\<close>, the training key is unchanged and has no
  last value. When the evaluated key \<open>k\<close> is not the training key and has the initial
  value \<open>a\<close>, the accuracy becomes its last value and exactly one record is emitted, with
  the forgetting \<open>a\<close> minus that accuracy.
\<close>

theorem C1_first_evaluation_sets_initial:
  fixes s u w :: "('y, 'l) ExperienceForgetting"
  shows
  "(train_exp_id s = Some k \<and> eval_exp_id s = Some k
      \<and> \<not> dict_contains (last_d (forgetting s)) (Some k) \<longrightarrow>
      (\<exists>s'. ExperienceForgetting_after_eval_exp acc st s = Inr (s', None)
          \<and> map_of (initial (forgetting s')) (Some k) = Some (acc (current_accuracy s))
          \<and> ExperienceForgetting_result (Some k) s' = Inr RNone))
   \<and> (train_exp_id u = Some k \<and> (\<forall>ev \<in> set evs. \<not> is_BeforeTrainingExp ev) \<longrightarrow>
      (\<exists>u' outs. ExperienceForgetting_run acc (BeforeEval st0 # evs) u = Inr (u', outs)
          \<and> train_exp_id u' = Some k
          \<and> \<not> dict_contains (last_d (forgetting u')) (Some k)
          \<and> (eval_exp_id u' = Some k \<longrightarrow>
               (\<exists>u''. ExperienceForgetting_after_eval_exp acc st u' = Inr (u'', None)
                  \<and> map_of (initial (forgetting u'')) (Some k)
                      = Some (acc (current_accuracy u'))))))
   \<and> (train_exp_id w \<noteq> Some k \<and> eval_exp_id w = Some k
      \<and> map_of (initial (forgetting w)) (Some k) = Some a \<longrightarrow>
      (\<exists>w'. ExperienceForgetting_after_eval_exp acc st w =
               Inr (w', Some [\<lparr>mv_origin = ''ExperienceForgetting'',
                               mv_name = exp_metric_name st,
                               mv_value = RFloat (a - acc (current_accuracy w)),
                               mv_x_plot = global_counter st\<rparr>])
          \<and> map_of (initial (forgetting w')) (Some k) = Some a
          \<and> map_of (last_d (forgetting w')) (Some k) = Some (acc (current_accuracy w))
          \<and> ExperienceForgetting_result (Some k) w'
              = Inr (RFloat (a - acc (current_accuracy w)))))"
proof -
  have first: "\<exists>s'. ExperienceForgetting_after_eval_exp acc st s = Inr (s', None)
          \<and> map_of (initial (forgetting s')) (Some k) = Some (acc (current_accuracy s))
          \<and> ExperienceForgetting_result (Some k) s' = Inr RNone"
    if "train_exp_id s = Some k" "eval_exp_id s = Some k"
       "\<not> dict_contains (last_d (forgetting s)) (Some k)"
    for s :: "('y, 'l) ExperienceForgetting"
    using that ExperienceForgetting_after_eval_exp_key[OF that(2), of acc st]
    by (simp add: key_forgetting_def Forgetting_update_maps dict_contains_def
          ExperienceForgetting_result_def ExperienceForgetting_update_def
          Forgetting_result_Some)
  have stream: "\<exists>u' outs. ExperienceForgetting_run acc (BeforeEval st0 # evs) u = Inr (u', outs)
          \<and> train_exp_id u' = Some k
          \<and> \<not> dict_contains (last_d (forgetting u')) (Some k)
          \<and> (eval_exp_id u' = Some k \<longrightarrow>
               (\<exists>u''. ExperienceForgetting_after_eval_exp acc st u' = Inr (u'', None)
                  \<and> map_of (initial (forgetting u'')) (Some k)
                      = Some (acc (current_accuracy u'))))"
    if t: "train_exp_id u = Some k" and nt: "\<forall>ev \<in> set evs. \<not> is_BeforeTrainingExp ev"
  proof -
    let ?u0 = "ExperienceForgetting_before_eval st0 u"
    have u0: "train_exp_id ?u0 = Some k" "map_of (last_d (forgetting ?u0)) (train_exp_id ?u0) = None"
      using t by (simp_all add: ExperienceForgetting_before_eval_def
            ExperienceForgetting_reset_last_accuracy_def Forgetting_reset_last_def)
    obtain u' outs where r: "ExperienceForgetting_run acc evs ?u0 = Inr (u', outs)"
      using ExperienceForgetting_run_total by blast
    from ExperienceForgetting_no_last_in_stream[OF r nt u0(2)] u0(1)
    have inv: "train_exp_id u' = Some k" "\<not> dict_contains (last_d (forgetting u')) (Some k)"
      by (simp_all add: dict_contains_def)
    have "ExperienceForgetting_run acc (BeforeEval st0 # evs) u = Inr (u', outs)"
      using r by simp
    moreover have "eval_exp_id u' = Some k \<longrightarrow>
               (\<exists>u''. ExperienceForgetting_after_eval_exp acc st u' = Inr (u'', None)
                  \<and> map_of (initial (forgetting u'')) (Some k)
                      = Some (acc (current_accuracy u')))"
      using first[OF inv(1) _ inv(2)] by blast
    ultimately show ?thesis using inv by blast
  qed
  have later: "\<exists>w'. ExperienceForgetting_after_eval_exp acc st w =
               Inr (w', Some [\<lparr>mv_origin = ''ExperienceForgetting'',
                               mv_name = exp_metric_name st,
                               mv_value = RFloat (a - acc (current_accuracy w)),
                               mv_x_plot = global_counter st\<rparr>])
          \<and> map_of (initial (forgetting w')) (Some k) = Some a
          \<and> map_of (last_d (forgetting w')) (Some k) = Some (acc (current_accuracy w))
          \<and> ExperienceForgetting_result (Some k) w'
              = Inr (RFloat (a - acc (current_accuracy w)))"
    if "train_exp_id w \<noteq> Some k" "eval_exp_id w = Some k"
       "map_of (initial (forgetting w)) (Some k) = Some a"
    using that ExperienceForgetting_after_eval_exp_key[OF that(2), of acc st]
    by (simp add: key_forgetting_def Forgetting_update_maps
          ExperienceForgetting_result_def ExperienceForgetting_update_def
          Forgetting_result_Some)
  from first stream later show ?thesis by blast
qed

text \<open>The theorem at a concrete input.\<close>

theorem C1_first_evaluation_sets_initial_witness:
  "list_all (\<lambda>ev. \<not> is_BeforeTrainingExp ev)
         [BeforeEvalExp (on_exp 0 0), AfterEvalIteration (on_exp 0 (9/10))]
   \<and> ExperienceForgetting_after_eval_exp share_accuracy (on_exp 0 0)
        \<lparr>forgetting = \<lparr>initial = [], last_d = []\<rparr>,
         current_accuracy = [(9/10, ())], eval_exp_id = Some 0, train_exp_id = Some 0\<rparr>
       = Inr (\<lparr>forgetting = \<lparr>initial = [(Some 0, 9/10)], last_d = []\<rparr>,
               current_accuracy = [(9/10, ())], eval_exp_id = Some 0, train_exp_id = Some 0\<rparr>,
              None)
   \<and> ExperienceForgetting_run share_accuracy
        [BeforeEval (on_exp 0 0), BeforeEvalExp (on_exp 0 0), AfterEvalIteration (on_exp 0 (9/10))]
        \<lparr>forgetting = \<lparr>initial = [], last_d = []\<rparr>,
         current_accuracy = [], eval_exp_id = None, train_exp_id = Some 0\<rparr>
       = Inr (\<lparr>forgetting = \<lparr>initial = [], last_d = []\<rparr>,
               current_accuracy = [(9/10, ())], eval_exp_id = Some 0, train_exp_id = Some 0\<rparr>,
              [])
   \<and> ExperienceForgetting_after_eval_exp share_accuracy (on_exp 0 0)
        \<lparr>forgetting = \<lparr>initial = [(Some 0, 9/10)], last_d = []\<rparr>,
         current_accuracy = [(7/10, ())], eval_exp_id = Some 0, train_exp_id = Some 1\<rparr>
       = Inr (\<lparr>forgetting = \<lparr>initial = [(Some 0, 9/10)], last_d = [(Some 0, 7/10)]\<rparr>,
               current_accuracy = [(7/10, ())], eval_exp_id = Some 0, train_exp_id = Some 1\<rparr>,
              Some [\<lparr>mv_origin = ''ExperienceForgetting'', mv_name = ''Forgetting'',
                     mv_value = RFloat (2/10), mv_x_plot = 0\<rparr>])
   \<and> ExperienceForgetting_run share_accuracy
       [BeforeTrainingExp (on_exp 0 0), BeforeEval (on_exp 0 0), BeforeEvalExp (on_exp 0 0),
        AfterEvalIteration (on_exp 0 (9/10)), AfterEvalExp (on_exp 0 0), AfterEval (on_exp 0 0),
        BeforeTrainingExp (on_exp 1 0), BeforeEval (on_exp 0 0), BeforeEvalExp (on_exp 0 0),
        AfterEvalIteration (on_exp 0 (7/10)), AfterEvalExp (on_exp 0 0), AfterEval (on_exp 0 0)]
       ExperienceForgetting_init
      = Inr (\<lparr>forgetting = \<lparr>initial = [(Some 0, 9/10)], last_d = [(Some 0, 7/10)]\<rparr>,
              current_accuracy = [(7/10, ())], eval_exp_id = Some 0, train_exp_id = Some 1\<rparr>,
             [\<lparr>mv_origin = ''ExperienceForgetting'', mv_name = ''Forgetting'',
               mv_value = RFloat (2/10), mv_x_plot = 0\<rparr>])"
proof -
  let ?s = "\<lparr>forgetting = \<lparr>initial = [], last_d = []\<rparr>,
         current_accuracy = [(9/10, ())], eval_exp_id = Some 0, train_exp_id = Some 0\<rparr>
         :: (real, unit) ExperienceForgetting"
  let ?u = "\<lparr>forgetting = \<lparr>initial = [], last_d = []\<rparr>,
         current_accuracy = [], eval_exp_id = None, train_exp_id = Some 0\<rparr>
         :: (real, unit) ExperienceForgetting"
  let ?w = "\<lparr>forgetting = \<lparr>initial = [(Some 0, 9/10)], last_d = []\<rparr>,
         current_accuracy = [(7/10, ())], eval_exp_id = Some 0, train_exp_id = Some 1\<rparr>
         :: (real, unit) ExperienceForgetting"
  let ?evs = "[BeforeEvalExp (on_exp 0 0), AfterEvalIteration (on_exp 0 (9/10))]"
  have hs: "train_exp_id ?s = Some 0 \<and> eval_exp_id ?s = Some 0
      \<and> \<not> dict_contains (last_d (forgetting ?s)) (Some 0)"
    by (simp add: dict_contains_def)
  have hu: "train_exp_id ?u = Some 0 \<and> (\<forall>ev \<in> set ?evs. \<not> is_BeforeTrainingExp ev)"
    by simp
  have hw: "train_exp_id ?w \<noteq> Some 0 \<and> eval_exp_id ?w = Some 0
      \<and> map_of (initial (forgetting ?w)) (Some 0) = Some (9/10)"
    by simp
  have acc: "share_accuracy (current_accuracy ?s) = 9/10"
     "share_accuracy (current_accuracy ?w) = 7/10"
    by (simp_all add: share_accuracy_def)
  have run: "ExperienceForgetting_run share_accuracy
       [BeforeTrainingExp (on_exp 0 0), BeforeEval (on_exp 0 0), BeforeEvalExp (on_exp 0 0),
        AfterEvalIteration (on_exp 0 (9/10)), AfterEvalExp (on_exp 0 0), AfterEval (on_exp 0 0),
        BeforeTrainingExp (on_exp 1 0), BeforeEval (on_exp 0 0), BeforeEvalExp (on_exp 0 0),
        AfterEvalIteration (on_exp 0 (7/10)), AfterEvalExp (on_exp 0 0), AfterEval (on_exp 0 0)]
       ExperienceForgetting_init
      = Inr (\<lparr>forgetting = \<lparr>initial = [(Some 0, 9/10)], last_d = [(Some 0, 7/10)]\<rparr>,
              current_accuracy = [(7/10, ())], eval_exp_id = Some 0, train_exp_id = Some 1\<rparr>,
             [\<lparr>mv_origin = ''ExperienceForgetting'', mv_name = ''Forgetting'',
               mv_value = RFloat (2/10), mv_x_plot = 0\<rparr>])"
    by code_simp
  have e1: "ExperienceForgetting_after_eval_exp share_accuracy (on_exp 0 0) ?s
       = Inr (\<lparr>forgetting = \<lparr>initial = [(Some 0, 9/10)], last_d = []\<rparr>,
               current_accuracy = [(9/10, ())], eval_exp_id = Some 0, train_exp_id = Some 0\<rparr>,
              None)"
    by code_simp
  have e2: "ExperienceForgetting_run share_accuracy (BeforeEval (on_exp 0 0) # ?evs) ?u
       = Inr (?s, [])"
    by code_simp
  have e3: "ExperienceForgetting_after_eval_exp share_accuracy (on_exp 0 0) ?w
       = Inr (\<lparr>forgetting = \<lparr>initial = [(Some 0, 9/10)], last_d = [(Some 0, 7/10)]\<rparr>,
               current_accuracy = [(7/10, ())], eval_exp_id = Some 0, train_exp_id = Some 1\<rparr>,
              Some [\<lparr>mv_origin = ''ExperienceForgetting'', mv_name = ''Forgetting'',
                     mv_value = RFloat (2/10), mv_x_plot = 0\<rparr>])"
    by code_simp
  from C1_first_evaluation_sets_initial
         [of ?s 0 share_accuracy "on_exp 0 0" ?u ?evs "on_exp 0 0" ?w "9/10"]
    hs hu hw run e1 e2 e3
  show ?thesis by simp
qed


text \<open>
  Claim C4. Let \<open>k\<close> be a key that the events so far, and the \<^verbatim>\<open>after_eval_exp\<close> that
  follows them, never record as trained. Then by ExperienceForgetting \<^verbatim>\<open>result(k)\<close> is
  \<^verbatim>\<open>None\<close> after the events, and an \<^verbatim>\<open>after_eval_exp\<close> for \<open>k\<close> emits nothing and leaves it
  \<^verbatim>\<open>None\<close>; by StreamForgetting the forgetting of \<open>k\<close> is \<^verbatim>\<open>None\<close> as well, and an
  \<^verbatim>\<open>after_eval_exp\<close> for \<open>k\<close> feeds nothing into the running mean. The events are any
  sequence of hooks from the fresh metric, so any number of evaluation passes.
\<close>

theorem C4_never_trained_key:
  "\<not> recorded_as_trained k None None (evs @ [AfterEvalExp st]) \<longrightarrow>
     (\<exists>s outs. ExperienceForgetting_run acc evs ExperienceForgetting_init = Inr (s, outs)
        \<and> ExperienceForgetting_result (Some k) s = Inr RNone
        \<and> (eval_exp_id s = Some k \<longrightarrow>
             (\<exists>s'. ExperienceForgetting_after_eval_exp acc st s = Inr (s', None)
                 \<and> ExperienceForgetting_result (Some k) s' = Inr RNone)))
     \<and> (\<forall>z outs. StreamForgetting_run acc evs StreamForgetting_init = Inr (z, outs) \<longrightarrow>
          StreamForgetting_exp_result (Some k) z = Inr RNone
          \<and> (s_eval_exp_id z = Some k \<longrightarrow>
               (\<exists>z'. StreamForgetting_after_eval_exp acc st z = Inr z'
                   \<and> stream_forgetting z' = stream_forgetting z
                   \<and> StreamForgetting_exp_result (Some k) z' = Inr RNone)))"
proof -
  have ex: "\<exists>s outs. ExperienceForgetting_run acc evs ExperienceForgetting_init = Inr (s, outs)
        \<and> ExperienceForgetting_result (Some k) s = Inr RNone
        \<and> (eval_exp_id s = Some k \<longrightarrow>
             (\<exists>s'. ExperienceForgetting_after_eval_exp acc st s = Inr (s', None)
                 \<and> ExperienceForgetting_result (Some k) s' = Inr RNone))"
    if nr: "\<not> recorded_as_trained k None None (evs @ [AfterEvalExp st])"
  proof -
    obtain s outs where r: "ExperienceForgetting_run acc evs ExperienceForgetting_init = Inr (s, outs)"
      using ExperienceForgetting_run_total by blast
    have "\<not> recorded_as_trained k (train_exp_id s) (eval_exp_id s) [AfterEvalExp st]
         \<and> map_of (initial (forgetting s)) (Some k) = None"
      using ExperienceForgetting_never_trained[OF r, of k "[AfterEvalExp st]"] nr
      by (simp add: ExperienceForgetting_init_def Forgetting_init_def)
    then have inv: "\<not> (train_exp_id s = Some k \<and> eval_exp_id s = Some k)"
      "map_of (initial (forgetting s)) (Some k) = None" by simp_all
    have 1: "ExperienceForgetting_result (Some k) s = Inr RNone"
      using inv(2) by (simp add: ExperienceForgetting_result_def Forgetting_result_Some
            key_forgetting_def)
    have 2: "\<exists>s'. ExperienceForgetting_after_eval_exp acc st s = Inr (s', None)
                   \<and> ExperienceForgetting_result (Some k) s' = Inr RNone"
      if e: "eval_exp_id s = Some k"
      using inv e ExperienceForgetting_after_eval_exp_key[OF e, of acc st]
      by (simp add: key_forgetting_def Forgetting_update_maps
            ExperienceForgetting_result_def ExperienceForgetting_update_def
            Forgetting_result_Some)
    from r 1 2 show ?thesis by blast
  qed
  have st: "StreamForgetting_exp_result (Some k) z = Inr RNone
          \<and> (s_eval_exp_id z = Some k \<longrightarrow>
               (\<exists>z'. StreamForgetting_after_eval_exp acc st z = Inr z'
                   \<and> stream_forgetting z' = stream_forgetting z
                   \<and> StreamForgetting_exp_result (Some k) z' = Inr RNone))"
    if nr: "\<not> recorded_as_trained k None None (evs @ [AfterEvalExp st])"
      and r: "StreamForgetting_run acc evs StreamForgetting_init = Inr (z, outs)"
    for z outs
  proof -
    have "\<not> recorded_as_trained k (s_train_exp_id z) (s_eval_exp_id z) [AfterEvalExp st]
         \<and> map_of (initial (s_forgetting z)) (Some k) = None"
      using StreamForgetting_never_trained[OF r, of k "[AfterEvalExp st]"] nr
      by (simp add: StreamForgetting_init_def Forgetting_init_def)
    then have inv: "\<not> (s_train_exp_id z = Some k \<and> s_eval_exp_id z = Some k)"
      "map_of (initial (s_forgetting z)) (Some k) = None" by simp_all
    have 1: "StreamForgetting_exp_result (Some k) z = Inr RNone"
      using inv(2) by (simp add: StreamForgetting_exp_result_def Forgetting_result_Some
            key_forgetting_def)
    have 2: "\<exists>z'. StreamForgetting_after_eval_exp acc st z = Inr z'
                   \<and> stream_forgetting z' = stream_forgetting z
                   \<and> StreamForgetting_exp_result (Some k) z' = Inr RNone"
      if e: "s_eval_exp_id z = Some k"
      using inv e StreamForgetting_after_eval_exp_key[OF e, of acc st]
      by (simp add: key_forgetting_def Forgetting_update_maps
          StreamForgetting_exp_result_def StreamForgetting_exp_update_def
          Forgetting_result_Some)
    from 1 2 show ?thesis by blast
  qed
  from ex st show ?thesis by blast
qed

text \<open>The theorem at a concrete input.\<close>

theorem C4_never_trained_key_witness:
  "\<not> recorded_as_trained 5 None None
       ([BeforeTrainingExp (on_exp 0 0), BeforeEval (on_exp 0 0),
         BeforeEvalExp (on_exp 0 0), AfterEvalIteration (on_exp 0 (9/10)),
         AfterEvalExp (on_exp 0 0),
         BeforeEvalExp (on_exp 5 0), AfterEvalIteration (on_exp 5 (8/10)),
         AfterEvalExp (on_exp 5 0), AfterEval (on_exp 5 0),
         BeforeTrainingExp (on_exp 1 0), BeforeEval (on_exp 0 0),
         BeforeEvalExp (on_exp 0 0), AfterEvalIteration (on_exp 0 (7/10)),
         AfterEvalExp (on_exp 0 0),
         BeforeEvalExp (on_exp 5 0), AfterEvalIteration (on_exp 5 (6/10))]
        @ [AfterEvalExp (on_exp 5 0)])
   \<and> ExperienceForgetting_run share_accuracy
        [BeforeTrainingExp (on_exp 0 0), BeforeEval (on_exp 0 0),
         BeforeEvalExp (on_exp 0 0), AfterEvalIteration (on_exp 0 (9/10)),
         AfterEvalExp (on_exp 0 0),
         BeforeEvalExp (on_exp 5 0), AfterEvalIteration (on_exp 5 (8/10)),
         AfterEvalExp (on_exp 5 0), AfterEval (on_exp 5 0),
         BeforeTrainingExp (on_exp 1 0), BeforeEval (on_exp 0 0),
         BeforeEvalExp (on_exp 0 0), AfterEvalIteration (on_exp 0 (7/10)),
         AfterEvalExp (on_exp 0 0),
         BeforeEvalExp (on_exp 5 0), AfterEvalIteration (on_exp 5 (6/10))]
        ExperienceForgetting_init
       = Inr (\<lparr>forgetting = \<lparr>initial = [(Some 0, 9/10)], last_d = [(Some 0, 7/10)]\<rparr>,
               current_accuracy = [(6/10, ())], eval_exp_id = Some 5, train_exp_id = Some 1\<rparr>,
              [\<lparr>mv_origin = ''ExperienceForgetting'', mv_name = ''Forgetting'',
                mv_value = RFloat (2/10), mv_x_plot = 0\<rparr>])
   \<and> ExperienceForgetting_after_eval_exp share_accuracy (on_exp 5 0)
        \<lparr>forgetting = \<lparr>initial = [(Some 0, 9/10)], last_d = [(Some 0, 7/10)]\<rparr>,
         current_accuracy = [(6/10, ())], eval_exp_id = Some 5, train_exp_id = Some 1\<rparr>
       = Inr (\<lparr>forgetting = \<lparr>initial = [(Some 0, 9/10)],
                               last_d = [(Some 0, 7/10), (Some 5, 6/10)]\<rparr>,
               current_accuracy = [(6/10, ())], eval_exp_id = Some 5, train_exp_id = Some 1\<rparr>,
              None)
   \<and> StreamForgetting_run share_accuracy
        [BeforeTrainingExp (on_exp 0 0), BeforeEval (on_exp 0 0),
         BeforeEvalExp (on_exp 0 0), AfterEvalIteration (on_exp 0 (9/10)),
         AfterEvalExp (on_exp 0 0),
         BeforeEvalExp (on_exp 5 0), AfterEvalIteration (on_exp 5 (8/10)),
         AfterEvalExp (on_exp 5 0), AfterEval (on_exp 5 0),
         BeforeTrainingExp (on_exp 1 0), BeforeEval (on_exp 0 0),
         BeforeEvalExp (on_exp 0 0), AfterEvalIteration (on_exp 0 (7/10)),
         AfterEvalExp (on_exp 0 0),
         BeforeEvalExp (on_exp 5 0), AfterEvalIteration (on_exp 5 (6/10))]
        StreamForgetting_init
       = Inr (\<lparr>stream_forgetting = [(2/10, 1)],
               s_forgetting = \<lparr>initial = [(Some 0, 9/10)], last_d = [(Some 0, 7/10)]\<rparr>,
               s_current_accuracy = [(6/10, ())], s_eval_exp_id = Some 5,
               s_train_exp_id = Some 1\<rparr>,
              [\<lparr>mv_origin = ''StreamForgetting'',
                mv_name = ''StreamForgetting/eval_phase/test_stream'',
                mv_value = None, mv_x_plot = 0\<rparr>])
   \<and> StreamForgetting_after_eval_exp share_accuracy (on_exp 5 0)
        \<lparr>stream_forgetting = [(2/10, 1)],
         s_forgetting = \<lparr>initial = [(Some 0, 9/10)], last_d = [(Some 0, 7/10)]\<rparr>,
         s_current_accuracy = [(6/10, ())], s_eval_exp_id = Some 5,
         s_train_exp_id = Some 1\<rparr>
       = Inr \<lparr>stream_forgetting = [(2/10, 1)],
              s_forgetting = \<lparr>initial = [(Some 0, 9/10)],
                               last_d = [(Some 0, 7/10), (Some 5, 6/10)]\<rparr>,
              s_current_accuracy = [(6/10, ())], s_eval_exp_id = Some 5,
              s_train_exp_id = Some 1\<rparr>"
proof -
  let ?evs = "[BeforeTrainingExp (on_exp 0 0), BeforeEval (on_exp 0 0),
         BeforeEvalExp (on_exp 0 0), AfterEvalIteration (on_exp 0 (9/10)),
         AfterEvalExp (on_exp 0 0),
         BeforeEvalExp (on_exp 5 0), AfterEvalIteration (on_exp 5 (8/10)),
         AfterEvalExp (on_exp 5 0), AfterEval (on_exp 5 0),
         BeforeTrainingExp (on_exp 1 0), BeforeEval (on_exp 0 0),
         BeforeEvalExp (on_exp 0 0), AfterEvalIteration (on_exp 0 (7/10)),
         AfterEvalExp (on_exp 0 0),
         BeforeEvalExp (on_exp 5 0), AfterEvalIteration (on_exp 5 (6/10))]"
  have h: "\<not> recorded_as_trained 5 None None (?evs @ [AfterEvalExp (on_exp 5 0)])"
    by (simp add: on_exp_def)
  have e1: "ExperienceForgetting_run share_accuracy ?evs ExperienceForgetting_init
       = Inr (\<lparr>forgetting = \<lparr>initial = [(Some 0, 9/10)], last_d = [(Some 0, 7/10)]\<rparr>,
               current_accuracy = [(6/10, ())], eval_exp_id = Some 5, train_exp_id = Some 1\<rparr>,
              [\<lparr>mv_origin = ''ExperienceForgetting'', mv_name = ''Forgetting'',
                mv_value = RFloat (2/10), mv_x_plot = 0\<rparr>])"
    by code_simp
  have e2: "ExperienceForgetting_after_eval_exp share_accuracy (on_exp 5 0)
        \<lparr>forgetting = \<lparr>initial = [(Some 0, 9/10)], last_d = [(Some 0, 7/10)]\<rparr>,
         current_accuracy = [(6/10, ())], eval_exp_id = Some 5, train_exp_id = Some 1\<rparr>
       = Inr (\<lparr>forgetting = \<lparr>initial = [(Some 0, 9/10)],
                               last_d = [(Some 0, 7/10), (Some 5, 6/10)]\<rparr>,
               current_accuracy = [(6/10, ())], eval_exp_id = Some 5, train_exp_id = Some 1\<rparr>,
              None)"
    by code_simp
  have e3: "StreamForgetting_run share_accuracy ?evs StreamForgetting_init
       = Inr (\<lparr>stream_forgetting = [(2/10, 1)],
               s_forgetting = \<lparr>initial = [(Some 0, 9/10)], last_d = [(Some 0, 7/10)]\<rparr>,
               s_current_accuracy = [(6/10, ())], s_eval_exp_id = Some 5,
               s_train_exp_id = Some 1\<rparr>,
              [\<lparr>mv_origin = ''StreamForgetting'',
                mv_name = ''StreamForgetting/eval_phase/test_stream'',
                mv_value = None, mv_x_plot = 0\<rparr>])"
    by code_simp
  have e4: "StreamForgetting_after_eval_exp share_accuracy (on_exp 5 0)
        \<lparr>stream_forgetting = [(2/10, 1)],
         s_forgetting = \<lparr>initial = [(Some 0, 9/10)], last_d = [(Some 0, 7/10)]\<rparr>,
         s_current_accuracy = [(6/10, ())], s_eval_exp_id = Some 5,
         s_train_exp_id = Some 1\<rparr>
       = Inr \<lparr>stream_forgetting = [(2/10, 1)],
              s_forgetting = \<lparr>initial = [(Some 0, 9/10)],
                               last_d = [(Some 0, 7/10), (Some 5, 6/10)]\<rparr>,
              s_current_accuracy = [(6/10, ())], s_eval_exp_id = Some 5,
              s_train_exp_id = Some 1\<rparr>"
    by code_simp
  from C4_never_trained_key[of 5 ?evs "on_exp 5 0" share_accuracy] h e1 e2 e3 e4
  show ?thesis by simp
qed

subsection \<open>One evaluation stream of StreamForgetting\<close>


lemma StreamForgetting_run_iterations:
  "\<exists>z'. StreamForgetting_run acc (map AfterEvalIteration its) z = Inr (z', [])
      \<and> stream_forgetting z' = stream_forgetting z
      \<and> s_forgetting z' = s_forgetting z
      \<and> s_train_exp_id z' = s_train_exp_id z
      \<and> s_current_accuracy z' = s_current_accuracy z @ map (\<lambda>st. (mb_y st, logits st)) its
      \<and> s_eval_exp_id z' =
          (if its = [] then s_eval_exp_id z else Some (current_experience (last its)))"
proof (induction its arbitrary: z)
  case Nil
  then show ?case by simp
next
  case (Cons it its)
  let ?z1 = "StreamForgetting_after_eval_iteration it z"
  from Cons.IH[of ?z1] obtain z' where
    z': "StreamForgetting_run acc (map AfterEvalIteration its) ?z1 = Inr (z', [])"
      "stream_forgetting z' = stream_forgetting ?z1"
      "s_forgetting z' = s_forgetting ?z1"
      "s_train_exp_id z' = s_train_exp_id ?z1"
      "s_current_accuracy z' = s_current_accuracy ?z1 @ map (\<lambda>st. (mb_y st, logits st)) its"
      "s_eval_exp_id z' =
          (if its = [] then s_eval_exp_id ?z1 else Some (current_experience (last its)))"
    by blast
  have "StreamForgetting_run acc (map AfterEvalIteration (it # its)) z = Inr (z', [])"
    using z'(1) by simp
  then show ?case
    using z'(2-6) by (auto simp: StreamForgetting_after_eval_iteration_def)
qed

lemma defined_forgetting_cong:
  assumes "\<forall>j. j \<noteq> t \<longrightarrow> f j = g j"
  shows "defined_forgetting acc f t x = defined_forgetting acc g t x"
  using assms by (simp add: defined_forgetting_def)

lemma StreamForgetting_run_experience:
  assumes its: "exp_iterations x \<noteq> []"
    and nl: "map_of (last_d (s_forgetting z)) (s_train_exp_id z) = None"
  shows "\<exists>z'. StreamForgetting_run acc (exp_events x) z = Inr (z', [])
      \<and> s_train_exp_id z' = s_train_exp_id z
      \<and> map_of (last_d (s_forgetting z')) (s_train_exp_id z) = None
      \<and> (\<forall>j. j \<noteq> s_train_exp_id z \<longrightarrow>
            map_of (initial (s_forgetting z')) j = map_of (initial (s_forgetting z)) j)
      \<and> stream_forgetting z' =
          stream_forgetting z @
          map (\<lambda>v. (v, 1))
            (defined_forgetting acc (map_of (initial (s_forgetting z))) (s_train_exp_id z) x)"
proof -
  obtain sb its sa where x: "x = (sb, its, sa)" by (cases x) auto
  with its have ne: "its \<noteq> []" by simp
  let ?k = "current_experience (last its)"
  let ?a = "acc (map (\<lambda>st. (mb_y st, logits st)) its)"
  let ?t = "s_train_exp_id z"
  let ?z0 = "StreamForgetting_before_eval_exp sb z"
  obtain z1 where
    z1: "StreamForgetting_run acc (map AfterEvalIteration its) ?z0 = Inr (z1, [])"
      "stream_forgetting z1 = stream_forgetting z"
      "s_forgetting z1 = s_forgetting z"
      "s_train_exp_id z1 = ?t"
      "s_current_accuracy z1 = map (\<lambda>st. (mb_y st, logits st)) its"
      "s_eval_exp_id z1 = Some ?k"
    using StreamForgetting_run_iterations[of acc its ?z0] ne
    by (auto simp: StreamForgetting_before_eval_exp_def)
  let ?f = "Forgetting_update (Some ?k) ?a (?t = Some ?k) (s_forgetting z)"
  let ?z2 = "(StreamForgetting_exp_update (Some ?k) ?a (?t = Some ?k) z1)
          \<lparr>stream_forgetting :=
             stream_forgetting z @
             (case key_forgetting ?f (Some ?k) of None \<Rightarrow> [] | Some d \<Rightarrow> [(d, 1)])\<rparr>"
  have step: "StreamForgetting_after_eval_exp acc sa z1 = Inr ?z2"
    using StreamForgetting_after_eval_exp_key[OF z1(6), of acc sa] z1(2-5) by simp
  have run: "StreamForgetting_run acc (exp_events x) z = Inr (?z2, [])"
    using x z1(1) step by (simp add: StreamForgetting_run_append)
  have f2: "s_forgetting ?z2 = ?f" "s_train_exp_id ?z2 = ?t"
    using z1(3,4) by (simp_all add: StreamForgetting_exp_update_def)
  have a: "map_of (last_d ?f) ?t = None"
    using nl by (auto simp: Forgetting_update_maps)
  have b: "\<forall>j. j \<noteq> ?t \<longrightarrow> map_of (initial ?f) j = map_of (initial (s_forgetting z)) j"
    by (auto simp: Forgetting_update_maps)
  have c: "(case key_forgetting ?f (Some ?k) of None \<Rightarrow> [] | Some d \<Rightarrow> [(d, 1::real)]) =
          map (\<lambda>v. (v, 1)) (defined_forgetting acc (map_of (initial (s_forgetting z))) ?t x)"
    using nl x
    by (auto simp: key_forgetting_def Forgetting_update_maps defined_forgetting_def
          exp_key_def exp_accuracy_def split: option.splits)
  have "stream_forgetting ?z2 = stream_forgetting z @
          map (\<lambda>v. (v, 1)) (defined_forgetting acc (map_of (initial (s_forgetting z))) ?t x)"
    using c by simp
  with run f2 a b show ?thesis by (intro exI[of _ ?z2]) simp
qed

lemma StreamForgetting_run_experiences:
  assumes "\<forall>x \<in> set exps. exp_iterations x \<noteq> []"
    and "map_of (last_d (s_forgetting z)) (s_train_exp_id z) = None"
  shows "\<exists>z'. StreamForgetting_run acc (concat (map exp_events exps)) z = Inr (z', [])
      \<and> stream_forgetting z' =
          stream_forgetting z @
          map (\<lambda>v. (v, 1))
            (stream_forgetting_values acc (map_of (initial (s_forgetting z)))
               (s_train_exp_id z) exps)"
  using assms
proof (induction exps arbitrary: z)
  case Nil
  then show ?case by (simp add: stream_forgetting_values_def)
next
  case (Cons x exps)
  let ?t = "s_train_exp_id z"
  from Cons.prems have its: "exp_iterations x \<noteq> []" "\<forall>x \<in> set exps. exp_iterations x \<noteq> []"
    by simp_all
  obtain z1 where
    z1: "StreamForgetting_run acc (exp_events x) z = Inr (z1, [])"
      "s_train_exp_id z1 = ?t"
      "map_of (last_d (s_forgetting z1)) ?t = None"
      "\<forall>j. j \<noteq> ?t \<longrightarrow> map_of (initial (s_forgetting z1)) j = map_of (initial (s_forgetting z)) j"
      "stream_forgetting z1 = stream_forgetting z @
          map (\<lambda>v. (v, 1)) (defined_forgetting acc (map_of (initial (s_forgetting z))) ?t x)"
    using StreamForgetting_run_experience[OF its(1) Cons.prems(2), of acc] by blast
  have nl1: "map_of (last_d (s_forgetting z1)) (s_train_exp_id z1) = None"
    using z1(2,3) by simp
  obtain z2 where
    z2: "StreamForgetting_run acc (concat (map exp_events exps)) z1 = Inr (z2, [])"
      "stream_forgetting z2 = stream_forgetting z1 @
          map (\<lambda>v. (v, 1))
            (stream_forgetting_values acc (map_of (initial (s_forgetting z1)))
               (s_train_exp_id z1) exps)"
    using Cons.IH[OF its(2) nl1] by blast
  have same: "stream_forgetting_values acc (map_of (initial (s_forgetting z1))) ?t exps
      = stream_forgetting_values acc (map_of (initial (s_forgetting z))) ?t exps"
  proof -
    have "defined_forgetting acc (map_of (initial (s_forgetting z1))) ?t
        = defined_forgetting acc (map_of (initial (s_forgetting z))) ?t"
      by (rule ext) (rule defined_forgetting_cong[OF z1(4)])
    then show ?thesis by (simp add: stream_forgetting_values_def)
  qed
  have "StreamForgetting_run acc (concat (map exp_events (x # exps))) z = Inr (z2, [])"
    using z1(1) z2(1) by (simp add: StreamForgetting_run_append)
  moreover have "stream_forgetting z2 = stream_forgetting z @
          map (\<lambda>v. (v, 1))
            (stream_forgetting_values acc (map_of (initial (s_forgetting z))) ?t (x # exps))"
    using z2(2) z1(2,5) same by (simp add: stream_forgetting_values_def)
  ultimately show ?case by blast
qed

lemma StreamForgetting_run_stream:
  assumes "\<forall>x \<in> set exps. exp_iterations x \<noteq> []"
  shows "\<exists>z'. StreamForgetting_run acc (stream_events st0 exps stN) z =
            Inr (z', StreamForgetting_after_eval stN z')
      \<and> stream_forgetting z' =
          map (\<lambda>v. (v, 1))
            (stream_forgetting_values acc (map_of (initial (s_forgetting z)))
               (s_train_exp_id z) exps)"
proof -
  let ?z0 = "StreamForgetting_before_eval st0 z"
  have z0: "s_train_exp_id ?z0 = s_train_exp_id z" "initial (s_forgetting ?z0) = initial (s_forgetting z)"
    "stream_forgetting ?z0 = []" "map_of (last_d (s_forgetting ?z0)) (s_train_exp_id ?z0) = None"
    by (simp_all add: StreamForgetting_before_eval_def StreamForgetting_reset_last_accuracy_def
          Forgetting_reset_last_def Mean_reset_def Let_def)
  obtain z1 where
    z1: "StreamForgetting_run acc (concat (map exp_events exps)) ?z0 = Inr (z1, [])"
      "stream_forgetting z1 = stream_forgetting ?z0 @
          map (\<lambda>v. (v, 1))
            (stream_forgetting_values acc (map_of (initial (s_forgetting ?z0)))
               (s_train_exp_id ?z0) exps)"
    using StreamForgetting_run_experiences[OF assms z0(4), of acc] by blast
  have "StreamForgetting_run acc (stream_events st0 exps stN) z =
            Inr (z1, StreamForgetting_after_eval stN z1)"
    using z1(1) by (simp add: stream_events_def StreamForgetting_run_append)
  moreover have "stream_forgetting z1 =
          map (\<lambda>v. (v, 1))
            (stream_forgetting_values acc (map_of (initial (s_forgetting z)))
               (s_train_exp_id z) exps)"
    using z1(2) z0(1-3) by simp
  ultimately show ?thesis by blast
qed



text \<open>
  Claim C7. \<^verbatim>\<open>after_eval\<close> of StreamForgetting returns exactly one record: the current
  result of the running mean under the name
  \<^verbatim>\<open>StreamForgetting/<phase>_phase/<stream>_stream\<close>. \<^verbatim>\<open>after_eval_exp\<close> never returns a
  record. So a sequence of events without \<^verbatim>\<open>after_eval\<close>, followed by \<^verbatim>\<open>after_eval\<close>,
  emits that one record and nothing else, and a stream whose experiences all have an
  iteration does run to its end and emits it.
\<close>

theorem C7_one_record_per_stream:
  "StreamForgetting_after_eval st z =
     [\<lparr>mv_origin = ''StreamForgetting'',
       mv_name = ''StreamForgetting/'' @ phase_name st @ ''_phase/''
                   @ stream_type st @ ''_stream'',
       mv_value = Mean_result (stream_forgetting z),
       mv_x_plot = global_counter st\<rparr>]
   \<and> (\<forall>z' out. StreamForgetting_hook acc (AfterEvalExp st) z = Inr (z', out) \<longrightarrow> out = None)
   \<and> ((\<forall>ev \<in> set evs. \<not> is_AfterEval ev) \<longrightarrow>
        (\<forall>z' outs. StreamForgetting_run acc (evs @ [AfterEval stN]) z = Inr (z', outs) \<longrightarrow>
           outs = StreamForgetting_after_eval stN z' \<and> length outs = 1))
   \<and> ((\<forall>x \<in> set exps. exp_iterations x \<noteq> []) \<longrightarrow>
        (\<exists>z' mv. StreamForgetting_run acc (stream_events st0 exps stN) z = Inr (z', [mv])
           \<and> [mv] = StreamForgetting_after_eval stN z'))"
proof -
  have shape: "StreamForgetting_after_eval st z =
     [\<lparr>mv_origin = ''StreamForgetting'',
       mv_name = ''StreamForgetting/'' @ phase_name st @ ''_phase/''
                   @ stream_type st @ ''_stream'',
       mv_value = Mean_result (stream_forgetting z),
       mv_x_plot = global_counter st\<rparr>]" for st and z :: "('a, 'b) StreamForgetting"
    by (simp add: StreamForgetting_after_eval_def StreamForgetting_package_result_def
          StreamForgetting_result_def Let_def)
  have quiet: "out = None"
    if "StreamForgetting_hook acc (AfterEvalExp st) z = Inr (z', out)" for z' out
    using StreamForgetting_hook_emits[OF that] by simp
  have silent: "outs = []"
    if "\<forall>ev \<in> set evs. \<not> is_AfterEval ev" "StreamForgetting_run acc evs z = Inr (z', outs)"
    for evs z' outs and z :: "('a, 'b) StreamForgetting"
    using that
  proof (induction evs arbitrary: z outs)
    case Nil
    then show ?case by simp
  next
    case (Cons ev evs)
    obtain z1 out outs1 where h: "StreamForgetting_hook acc ev z = Inr (z1, out)"
      and r: "StreamForgetting_run acc evs z1 = Inr (z', outs1)"
      and o: "outs = (case out of None \<Rightarrow> [] | Some mvs \<Rightarrow> mvs) @ outs1"
      using Cons.prems(2) by (auto split: sum.splits)
    have "out = None"
      using StreamForgetting_hook_emits[OF h] Cons.prems(1) by (cases ev) simp_all
    moreover have "outs1 = []"
      using Cons.IH[OF _ r] Cons.prems(1) by simp
    ultimately show ?case using o by simp
  qed
  have one: "outs = StreamForgetting_after_eval stN z' \<and> length outs = 1"
    if na: "\<forall>ev \<in> set evs. \<not> is_AfterEval ev"
      and r: "StreamForgetting_run acc (evs @ [AfterEval stN]) z = Inr (z', outs)"
    for z' outs
  proof -
    obtain z1 o1 where r1: "StreamForgetting_run acc evs z = Inr (z1, o1)"
      and r2: "z' = z1" "outs = o1 @ StreamForgetting_after_eval stN z1"
      using r by (auto simp: StreamForgetting_run_append split: sum.splits)
    have "o1 = []" using silent[OF na r1] .
    with r2 show ?thesis by (simp add: shape)
  qed
  have total: "\<exists>z' mv. StreamForgetting_run acc (stream_events st0 exps stN) z = Inr (z', [mv])
           \<and> [mv] = StreamForgetting_after_eval stN z'"
    if h: "\<forall>x \<in> set exps. exp_iterations x \<noteq> []"
  proof -
    obtain z' where "StreamForgetting_run acc (stream_events st0 exps stN) z =
            Inr (z', StreamForgetting_after_eval stN z')"
      using StreamForgetting_run_stream[OF h, of acc st0 stN z] by blast
    then show ?thesis by (auto simp: shape)
  qed
  from shape[of st z] quiet one total show ?thesis by blast
qed

text \<open>The theorem at a concrete input.\<close>

theorem C7_one_record_per_stream_witness:
  "list_all (\<lambda>ev. \<not> is_AfterEval ev)
     [BeforeEval (on_exp 2 0),
      BeforeEvalExp (on_exp 0 0), AfterEvalIteration (on_exp 0 (7/10)), AfterEvalExp (on_exp 0 0),
      BeforeEvalExp (on_exp 1 0), AfterEvalIteration (on_exp 1 (5/10)), AfterEvalExp (on_exp 1 0)]
   \<and> list_all (\<lambda>x. exp_iterations x \<noteq> [])
       [(on_exp 0 0, [on_exp 0 (7/10)], on_exp 0 0), (on_exp 1 0, [on_exp 1 (5/10)], on_exp 1 0)]
   \<and> StreamForgetting_hook share_accuracy (AfterEvalExp (on_exp 0 0))
        \<lparr>stream_forgetting = [],
         s_forgetting = \<lparr>initial = [(Some 0, 9/10), (Some 1, 8/10)], last_d = []\<rparr>,
         s_current_accuracy = [(7/10, ())], s_eval_exp_id = Some 0,
         s_train_exp_id = Some 2\<rparr>
       = Inr (\<lparr>stream_forgetting = [(2/10, 1)],
               s_forgetting = \<lparr>initial = [(Some 0, 9/10), (Some 1, 8/10)],
                                last_d = [(Some 0, 7/10)]\<rparr>,
               s_current_accuracy = [(7/10, ())], s_eval_exp_id = Some 0,
               s_train_exp_id = Some 2\<rparr>, None)
   \<and> StreamForgetting_run share_accuracy
        ([BeforeEval (on_exp 2 0),
          BeforeEvalExp (on_exp 0 0), AfterEvalIteration (on_exp 0 (7/10)),
          AfterEvalExp (on_exp 0 0),
          BeforeEvalExp (on_exp 1 0), AfterEvalIteration (on_exp 1 (5/10)),
          AfterEvalExp (on_exp 1 0)] @ [AfterEval (on_exp 2 0)])
        \<lparr>stream_forgetting = [],
         s_forgetting = \<lparr>initial = [(Some 0, 9/10), (Some 1, 8/10)], last_d = []\<rparr>,
         s_current_accuracy = [(7/10, ())], s_eval_exp_id = Some 0,
         s_train_exp_id = Some 2\<rparr>
       = Inr (\<lparr>stream_forgetting = [(2/10, 1), (3/10, 1)],
               s_forgetting = \<lparr>initial = [(Some 0, 9/10), (Some 1, 8/10)],
                                last_d = [(Some 0, 7/10), (Some 1, 5/10)]\<rparr>,
               s_current_accuracy = [(5/10, ())], s_eval_exp_id = Some 1,
               s_train_exp_id = Some 2\<rparr>,
              [\<lparr>mv_origin = ''StreamForgetting'',
                mv_name = ''StreamForgetting/eval_phase/test_stream'',
                mv_value = Some (25/100), mv_x_plot = 0\<rparr>])"
proof -
  let ?evs = "[BeforeEval (on_exp 2 0),
      BeforeEvalExp (on_exp 0 0), AfterEvalIteration (on_exp 0 (7/10)), AfterEvalExp (on_exp 0 0),
      BeforeEvalExp (on_exp 1 0), AfterEvalIteration (on_exp 1 (5/10)), AfterEvalExp (on_exp 1 0)]"
  let ?exps = "[(on_exp 0 0, [on_exp 0 (7/10)], on_exp 0 0),
                (on_exp 1 0, [on_exp 1 (5/10)], on_exp 1 0)]"
  let ?z = "\<lparr>stream_forgetting = [],
         s_forgetting = \<lparr>initial = [(Some 0, 9/10), (Some 1, 8/10)], last_d = []\<rparr>,
         s_current_accuracy = [(7/10, ())], s_eval_exp_id = Some 0,
         s_train_exp_id = Some 2\<rparr> :: (real, unit) StreamForgetting"
  have h1: "\<forall>ev \<in> set ?evs. \<not> is_AfterEval ev" by simp
  have h2: "\<forall>x \<in> set ?exps. exp_iterations x \<noteq> []" by simp
  have e1: "StreamForgetting_hook share_accuracy (AfterEvalExp (on_exp 0 0)) ?z
       = Inr (\<lparr>stream_forgetting = [(2/10, 1)],
               s_forgetting = \<lparr>initial = [(Some 0, 9/10), (Some 1, 8/10)],
                                last_d = [(Some 0, 7/10)]\<rparr>,
               s_current_accuracy = [(7/10, ())], s_eval_exp_id = Some 0,
               s_train_exp_id = Some 2\<rparr>, None)"
    by code_simp
  have e2: "StreamForgetting_run share_accuracy (?evs @ [AfterEval (on_exp 2 0)]) ?z
       = Inr (\<lparr>stream_forgetting = [(2/10, 1), (3/10, 1)],
               s_forgetting = \<lparr>initial = [(Some 0, 9/10), (Some 1, 8/10)],
                                last_d = [(Some 0, 7/10), (Some 1, 5/10)]\<rparr>,
               s_current_accuracy = [(5/10, ())], s_eval_exp_id = Some 1,
               s_train_exp_id = Some 2\<rparr>,
              [\<lparr>mv_origin = ''StreamForgetting'',
                mv_name = ''StreamForgetting/eval_phase/test_stream'',
                mv_value = Some (25/100), mv_x_plot = 0\<rparr>])"
    by code_simp
  from C7_one_record_per_stream
         [of "on_exp 0 0" ?z share_accuracy ?evs "on_exp 2 0" ?exps "on_exp 2 0"]
    h1 h2 e1 e2
  show ?thesis by (simp add: list_all_iff)
qed

subsection \<open>An evaluation that recorded no key\<close>

text \<open>
  \<^verbatim>\<open>eval_exp_id\<close> is \<^verbatim>\<open>None\<close> until the first evaluation iteration. An \<^verbatim>\<open>after_eval_exp\<close>
  in that state queries \<^verbatim>\<open>result(k=None)\<close>, which is the dictionary of all keys and never
  \<^verbatim>\<open>None\<close>: ExperienceForgetting emits that dictionary, and StreamForgetting hands it to
  the running mean, which takes scalars only. The properties below that speak of a key
  are about proper keys, \<open>Some k\<close>.
\<close>

lemma ExperienceForgetting_after_eval_exp_no_key:
  assumes "eval_exp_id s = None"
  shows "\<exists>s' d. ExperienceForgetting_after_eval_exp acc st s =
           Inr (s', Some [\<lparr>mv_origin = ''ExperienceForgetting'',
                           mv_name = exp_metric_name st, mv_value = RDict d,
                           mv_x_plot = global_counter st\<rparr>])"
proof -
  let ?s1 = "ExperienceForgetting_update None (acc (current_accuracy s))
            (train_exp_id s = None) s"
  obtain d where "Forgetting_result None (forgetting ?s1) = Inr (RDict d)"
    using Forgetting_result_None by blast
  moreover have "eval_exp_id ?s1 = None"
    using assms by (simp add: ExperienceForgetting_update_def)
  ultimately show ?thesis
    using assms
    by (auto simp: ExperienceForgetting_after_eval_exp_def ExperienceForgetting_result_def
          ExperienceForgetting_package_result_def Let_def)
qed

lemma StreamForgetting_after_eval_exp_no_key:
  assumes "s_eval_exp_id z = None"
  shows "StreamForgetting_after_eval_exp acc st z = Inl TypeError"
proof -
  let ?z1 = "StreamForgetting_exp_update None (acc (s_current_accuracy z))
            (s_train_exp_id z = None) z"
  obtain d where "Forgetting_result None (s_forgetting ?z1) = Inr (RDict d)"
    using Forgetting_result_None by blast
  moreover have "s_eval_exp_id ?z1 = None"
    using assms by (simp add: StreamForgetting_exp_update_def)
  ultimately show ?thesis
    using assms
    by (auto simp: StreamForgetting_after_eval_exp_def StreamForgetting_exp_result_def
          Mean_update_def Let_def)
qed

subsection \<open>Retraining, and the result of the stream metric\<close>

text \<open>
  Claim C8. Whenever the training key equals the evaluated key at \<^verbatim>\<open>after_eval_exp\<close>,
  the initial value of that key becomes the accumulated accuracy, whatever initial value
  it had before; the other initial values and all last values stay. This holds for
  ExperienceForgetting in every state and for StreamForgetting at every proper key.
\<close>

theorem C8_same_key_rewrites_initial:
  fixes s :: "('y, 'l) ExperienceForgetting" and z :: "('y, 'l) StreamForgetting"
  shows
  "(train_exp_id s = eval_exp_id s \<longrightarrow>
      (\<exists>s' out. ExperienceForgetting_after_eval_exp acc st s = Inr (s', out)
         \<and> map_of (initial (forgetting s')) (eval_exp_id s) = Some (acc (current_accuracy s))
         \<and> (\<forall>j. j \<noteq> eval_exp_id s \<longrightarrow>
               map_of (initial (forgetting s')) j = map_of (initial (forgetting s)) j)
         \<and> last_d (forgetting s') = last_d (forgetting s)))
   \<and> (s_train_exp_id z = Some k \<and> s_eval_exp_id z = Some k \<longrightarrow>
      (\<exists>z'. StreamForgetting_after_eval_exp acc st z = Inr z'
         \<and> map_of (initial (s_forgetting z')) (Some k) = Some (acc (s_current_accuracy z))
         \<and> (\<forall>j. j \<noteq> Some k \<longrightarrow>
               map_of (initial (s_forgetting z')) j = map_of (initial (s_forgetting z)) j)
         \<and> last_d (s_forgetting z') = last_d (s_forgetting z)))"
proof -
  have e: "\<exists>s' out. ExperienceForgetting_after_eval_exp acc st s = Inr (s', out)
         \<and> map_of (initial (forgetting s')) (eval_exp_id s) = Some (acc (current_accuracy s))
         \<and> (\<forall>j. j \<noteq> eval_exp_id s \<longrightarrow>
               map_of (initial (forgetting s')) j = map_of (initial (forgetting s)) j)
         \<and> last_d (forgetting s') = last_d (forgetting s)"
    if t: "train_exp_id s = eval_exp_id s"
  proof -
    let ?s1 = "ExperienceForgetting_update (eval_exp_id s) (acc (current_accuracy s))
                 (train_exp_id s = eval_exp_id s) s"
    obtain out where r: "ExperienceForgetting_after_eval_exp acc st s = Inr (?s1, out)"
      using ExperienceForgetting_after_eval_exp_total by blast
    have "map_of (initial (forgetting ?s1)) (eval_exp_id s) = Some (acc (current_accuracy s))"
      "\<forall>j. j \<noteq> eval_exp_id s \<longrightarrow>
          map_of (initial (forgetting ?s1)) j = map_of (initial (forgetting s)) j"
      "last_d (forgetting ?s1) = last_d (forgetting s)"
      using t by (simp_all add: ExperienceForgetting_update_def Forgetting_update_maps
            Forgetting_update_frame)
    with r show ?thesis by blast
  qed
  have f: "\<exists>z'. StreamForgetting_after_eval_exp acc st z = Inr z'
         \<and> map_of (initial (s_forgetting z')) (Some k) = Some (acc (s_current_accuracy z))
         \<and> (\<forall>j. j \<noteq> Some k \<longrightarrow>
               map_of (initial (s_forgetting z')) j = map_of (initial (s_forgetting z)) j)
         \<and> last_d (s_forgetting z') = last_d (s_forgetting z)"
    if t: "s_train_exp_id z = Some k" and ev: "s_eval_exp_id z = Some k"
    using t StreamForgetting_after_eval_exp_key[OF ev, of acc st]
    by (simp add: StreamForgetting_exp_update_def Forgetting_update_maps
          Forgetting_update_frame)
  from e f show ?thesis by blast
qed

text \<open>The theorem at a concrete input.\<close>

theorem C8_same_key_rewrites_initial_witness:
  "ExperienceForgetting_after_eval_exp share_accuracy (on_exp 0 0)
      \<lparr>forgetting = \<lparr>initial = [(Some 0, 9/10)], last_d = []\<rparr>,
       current_accuracy = [(6/10, ())], eval_exp_id = Some 0, train_exp_id = Some 0\<rparr>
     = Inr (\<lparr>forgetting = \<lparr>initial = [(Some 0, 6/10)], last_d = []\<rparr>,
             current_accuracy = [(6/10, ())], eval_exp_id = Some 0, train_exp_id = Some 0\<rparr>,
            None)
   \<and> StreamForgetting_after_eval_exp share_accuracy (on_exp 0 0)
      \<lparr>stream_forgetting = [],
       s_forgetting = \<lparr>initial = [(Some 0, 9/10)], last_d = []\<rparr>,
       s_current_accuracy = [(6/10, ())], s_eval_exp_id = Some 0, s_train_exp_id = Some 0\<rparr>
     = Inr \<lparr>stream_forgetting = [],
            s_forgetting = \<lparr>initial = [(Some 0, 6/10)], last_d = []\<rparr>,
            s_current_accuracy = [(6/10, ())], s_eval_exp_id = Some 0,
            s_train_exp_id = Some 0\<rparr>
   \<and> ExperienceForgetting_run share_accuracy
       [BeforeTrainingExp (on_exp 0 0), BeforeEval (on_exp 0 0), BeforeEvalExp (on_exp 0 0),
        AfterEvalIteration (on_exp 0 (9/10)), AfterEvalExp (on_exp 0 0), AfterEval (on_exp 0 0),
        BeforeTrainingExp (on_exp 1 0), BeforeEval (on_exp 0 0), BeforeEvalExp (on_exp 0 0),
        AfterEvalIteration (on_exp 0 (7/10)), AfterEvalExp (on_exp 0 0), AfterEval (on_exp 0 0),
        BeforeTrainingExp (on_exp 0 0), BeforeEval (on_exp 0 0), BeforeEvalExp (on_exp 0 0),
        AfterEvalIteration (on_exp 0 (6/10)), AfterEvalExp (on_exp 0 0), AfterEval (on_exp 0 0),
        BeforeTrainingExp (on_exp 1 0), BeforeEval (on_exp 0 0), BeforeEvalExp (on_exp 0 0),
        AfterEvalIteration (on_exp 0 (5/10)), AfterEvalExp (on_exp 0 0), AfterEval (on_exp 0 0)]
       ExperienceForgetting_init
      = Inr (\<lparr>forgetting = \<lparr>initial = [(Some 0, 6/10)], last_d = [(Some 0, 5/10)]\<rparr>,
              current_accuracy = [(5/10, ())], eval_exp_id = Some 0, train_exp_id = Some 1\<rparr>,
             [\<lparr>mv_origin = ''ExperienceForgetting'', mv_name = ''Forgetting'',
               mv_value = RFloat (2/10), mv_x_plot = 0\<rparr>,
              \<lparr>mv_origin = ''ExperienceForgetting'', mv_name = ''Forgetting'',
               mv_value = RFloat (1/10), mv_x_plot = 0\<rparr>])"
proof -
  let ?s = "\<lparr>forgetting = \<lparr>initial = [(Some 0, 9/10)], last_d = []\<rparr>,
       current_accuracy = [(6/10, ())], eval_exp_id = Some 0, train_exp_id = Some 0\<rparr>
       :: (real, unit) ExperienceForgetting"
  let ?z = "\<lparr>stream_forgetting = [],
       s_forgetting = \<lparr>initial = [(Some 0, 9/10)], last_d = []\<rparr>,
       s_current_accuracy = [(6/10, ())], s_eval_exp_id = Some 0, s_train_exp_id = Some 0\<rparr>
       :: (real, unit) StreamForgetting"
  have h: "train_exp_id ?s = eval_exp_id ?s"
     "s_train_exp_id ?z = Some 0 \<and> s_eval_exp_id ?z = Some 0"
    by simp_all
  have e1: "ExperienceForgetting_after_eval_exp share_accuracy (on_exp 0 0) ?s
     = Inr (\<lparr>forgetting = \<lparr>initial = [(Some 0, 6/10)], last_d = []\<rparr>,
             current_accuracy = [(6/10, ())], eval_exp_id = Some 0, train_exp_id = Some 0\<rparr>,
            None)"
    by code_simp
  have e2: "StreamForgetting_after_eval_exp share_accuracy (on_exp 0 0) ?z
     = Inr \<lparr>stream_forgetting = [],
            s_forgetting = \<lparr>initial = [(Some 0, 6/10)], last_d = []\<rparr>,
            s_current_accuracy = [(6/10, ())], s_eval_exp_id = Some 0,
            s_train_exp_id = Some 0\<rparr>"
    by code_simp
  have e3: "ExperienceForgetting_run share_accuracy
       [BeforeTrainingExp (on_exp 0 0), BeforeEval (on_exp 0 0), BeforeEvalExp (on_exp 0 0),
        AfterEvalIteration (on_exp 0 (9/10)), AfterEvalExp (on_exp 0 0), AfterEval (on_exp 0 0),
        BeforeTrainingExp (on_exp 1 0), BeforeEval (on_exp 0 0), BeforeEvalExp (on_exp 0 0),
        AfterEvalIteration (on_exp 0 (7/10)), AfterEvalExp (on_exp 0 0), AfterEval (on_exp 0 0),
        BeforeTrainingExp (on_exp 0 0), BeforeEval (on_exp 0 0), BeforeEvalExp (on_exp 0 0),
        AfterEvalIteration (on_exp 0 (6/10)), AfterEvalExp (on_exp 0 0), AfterEval (on_exp 0 0),
        BeforeTrainingExp (on_exp 1 0), BeforeEval (on_exp 0 0), BeforeEvalExp (on_exp 0 0),
        AfterEvalIteration (on_exp 0 (5/10)), AfterEvalExp (on_exp 0 0), AfterEval (on_exp 0 0)]
       ExperienceForgetting_init
      = Inr (\<lparr>forgetting = \<lparr>initial = [(Some 0, 6/10)], last_d = [(Some 0, 5/10)]\<rparr>,
              current_accuracy = [(5/10, ())], eval_exp_id = Some 0, train_exp_id = Some 1\<rparr>,
             [\<lparr>mv_origin = ''ExperienceForgetting'', mv_name = ''Forgetting'',
               mv_value = RFloat (2/10), mv_x_plot = 0\<rparr>,
              \<lparr>mv_origin = ''ExperienceForgetting'', mv_name = ''Forgetting'',
               mv_value = RFloat (1/10), mv_x_plot = 0\<rparr>])"
    by code_simp
  from C8_same_key_rewrites_initial[of ?s share_accuracy "on_exp 0 0" ?z 0] h e1 e2 e3
  show ?thesis by simp
qed

text \<open>
  Claim C10. \<^verbatim>\<open>StreamForgetting.result(k)\<close> is the current result of the running mean for
  every \<open>k\<close>, \<^verbatim>\<open>None\<close> included, so it is the same for any two keys;
  \<^verbatim>\<open>ExperienceForgetting.result(k)\<close> is the tracker's \<^verbatim>\<open>result(k)\<close>, as is
  \<^verbatim>\<open>StreamForgetting.exp_result(k)\<close>, and does depend on the key: in the state shown it
  differs between the keys 0 and 1.
\<close>

theorem C10_stream_result_ignores_key:
  "StreamForgetting_result k z = Mean_result (stream_forgetting z)
   \<and> StreamForgetting_result k z = StreamForgetting_result k' z
   \<and> StreamForgetting_result None z = Mean_result (stream_forgetting z)
   \<and> ExperienceForgetting_result k s = Forgetting_result k (forgetting s)
   \<and> StreamForgetting_exp_result k z = Forgetting_result k (s_forgetting z)
   \<and> ExperienceForgetting_result (Some 0)
        (\<lparr>forgetting = \<lparr>initial = [(Some 0, 9/10)], last_d = [(Some 0, 7/10)]\<rparr>,
          current_accuracy = [], eval_exp_id = None, train_exp_id = None\<rparr>
         :: (unit, unit) ExperienceForgetting)
       \<noteq> ExperienceForgetting_result (Some 1)
        (\<lparr>forgetting = \<lparr>initial = [(Some 0, 9/10)], last_d = [(Some 0, 7/10)]\<rparr>,
          current_accuracy = [], eval_exp_id = None, train_exp_id = None\<rparr>
         :: (unit, unit) ExperienceForgetting)"
  by (simp add: StreamForgetting_result_def ExperienceForgetting_result_def
        StreamForgetting_exp_result_def Forgetting_result_Some key_forgetting_def)

subsection \<open>A stream with an experience that has no iteration\<close>

text \<open>
  \<^verbatim>\<open>eval_exp_id\<close> is written by \<^verbatim>\<open>after_eval_iteration\<close> only. An experience without
  iterations is therefore handled under the key of the experience evaluated before it,
  with the accuracy of no minibatch.
\<close>

lemma own_forgetting_eq_defined:
  assumes "x = (sb, its, sa)" and "its \<noteq> []"
    and "current_experience (last its) = current_experience sb"
  shows "own_forgetting acc init_of t x = defined_forgetting acc init_of t x"
  using assms
  by (simp add: own_forgetting_def defined_forgetting_def exp_own_key_def exp_key_def)


end
